theory Spec2Isabelle
  imports Complex_Main "HOL-Library.Multiset"
begin

section \<open>Tensors and the tensor operations the allocators call\<close>

text \<open>
  The source is \<^verbatim>\<open>tools/sparsity_allocator.py\<close>. A tensor is its size and its elements in
  row-major order. The elements and the scalars of the source are floating-point numbers;
  the model takes them as the real numbers they denote (no NaN, no infinity). Every
  exception of the source is a value of type \<open>error\<close>.
\<close>

datatype error =
  AssertionError | KeyError | IndexError | ValueError | ZeroDivisionError | RuntimeError
  | Uninitialized

text \<open>
  \<open>Uninitialized\<close> is not an exception of the source: it marks the one place where the
  source goes on with memory it never wrote (\<^verbatim>\<open>resize_\<close> to a larger size), where the
  model stops.
\<close>

record tensor =
  shape :: "nat list"
  vals :: "real list"

text \<open>
  Floating-point arithmetic returns the exact result rounded to the type of the operation:
  a Python float (a double) for the scalar computations (\<^verbatim>\<open>sparsity_rate * metric.numel()\<close>),
  the element type of the tensors for the tensor computations (\<^verbatim>\<open>metric.min() - 1\<close>) and for
  a Python scalar that is compared with a tensor. The two roundings are parameters of the
  model: nothing is assumed of them unless a theorem says so. The products of a tensor with
  a mask, whose entries are 0 and 1, need no rounding.
\<close>

record rounding =
  to_double :: "real \<Rightarrow> real"
  to_dtype :: "real \<Rightarrow> real"

text \<open>
  The arithmetic that rounds nothing. It is the arithmetic of the source wherever the
  rounded results are the exact ones, as they are in the concrete calls of this theory.
\<close>

definition exact :: rounding where
  "exact = \<lparr>to_double = (\<lambda>x. x), to_dtype = (\<lambda>x. x)\<rparr>"

text \<open>\<^verbatim>\<open>t.numel()\<close>: the number of elements.\<close>

definition numel :: "tensor \<Rightarrow> nat" where
  "numel t = length (vals t)"

text \<open>Python's \<^verbatim>\<open>int(x)\<close> on a float truncates towards zero.\<close>

definition to_int :: "real \<Rightarrow> int" where
  "to_int r = (if 0 \<le> r then \<lfloor>r\<rfloor> else \<lceil>r\<rceil>)"

text \<open>
  \<^verbatim>\<open>torch.topk(xs, k, largest=False)[0]\<close> on a one-dimensional view: the \<open>k\<close> smallest
  entries in ascending order; a \<open>k\<close> outside \<open>0..len(xs)\<close> raises.
\<close>

definition topk_smallest :: "real list \<Rightarrow> int \<Rightarrow> error + real list" where
  "topk_smallest xs k =
     (if k < 0 \<or> int (length xs) < k then Inl RuntimeError
      else Inr (take (nat k) (sort xs)))"

text \<open>\<^verbatim>\<open>.max()\<close> and \<^verbatim>\<open>.min()\<close> raise on a tensor without elements.\<close>

definition t_max :: "real list \<Rightarrow> error + real" where
  "t_max xs = (if xs = [] then Inl RuntimeError else Inr (Max (set xs)))"

definition t_min :: "real list \<Rightarrow> error + real" where
  "t_min xs = (if xs = [] then Inl RuntimeError else Inr (Min (set xs)))"

text \<open>\<^verbatim>\<open>torch.gt(metric, threshold).type_as(metric)\<close>: 1 where the entry is greater, else 0.\<close>

definition gt :: "tensor \<Rightarrow> real \<Rightarrow> tensor" where
  "gt t thr = t\<lparr>vals := map (\<lambda>x. if thr < x then 1 else 0) (vals t)\<rparr>"

text \<open>
  Elementwise product \<^verbatim>\<open>a * b\<close> (and the in-place \<^verbatim>\<open>a *= b\<close>) of two tensors of one size.
  Broadcasting between different sizes is not modelled: the allocators multiply a metric by a
  mask of the metric's size and a weight mask by a mask of the weight's size; a product of
  tensors of different sizes is an error of the model. One factor is always a mask, whose
  entries are 0 and 1, so that the product is exact.
\<close>

definition t_mul :: "tensor \<Rightarrow> tensor \<Rightarrow> error + tensor" where
  "t_mul a b =
     (if shape a = shape b \<and> length (vals a) = length (vals b)
      then Inr (a\<lparr>vals := map2 (*) (vals a) (vals b)\<rparr>)
      else Inl RuntimeError)"

section \<open>Wrappers, allocators, metrics and masks\<close>

text \<open>
  A module wrapper as the allocators read it: \<^verbatim>\<open>config['total_sparsity']\<close>,
  \<^verbatim>\<open>config.get('max_sparsity_per_layer', {})\<close> (an association list, empty when absent),
  \<^verbatim>\<open>weight_mask\<close> (the mask of the previous round), \<^verbatim>\<open>module.weight.data.size()\<close> and
  \<^verbatim>\<open>bias_mask\<close>.
\<close>

record wrapper =
  total_sparsity :: real
  max_sparsity_per_layer :: "(string \<times> real) list"
  weight_mask :: tensor
  weight_size :: "nat list"
  bias_mask :: "tensor option"

text \<open>
  The allocator object: \<^verbatim>\<open>self.dim\<close>, \<^verbatim>\<open>self.block_sparse_size\<close>, \<^verbatim>\<open>self.continuous_mask\<close>
  and \<^verbatim>\<open>self.pruner.get_modules_wrapper()\<close>, an ordered dictionary.
\<close>

record allocator =
  dim_opt :: "nat list option"
  block_sparse_size :: "nat list option"
  continuous_mask :: bool
  modules_wrapper :: "(string \<times> wrapper) list"

text \<open>The value of \<^verbatim>\<open>masks[name]\<close>: the keys \<^verbatim>\<open>'weight'\<close> and, optionally, \<^verbatim>\<open>'bias'\<close>.\<close>

record layer_mask =
  weight :: tensor
  bias :: "tensor option"

type_synonym metrics = "string \<rightharpoonup> tensor"
type_synonym masks = "string \<rightharpoonup> layer_mask"

section \<open>The layer-local allocators (Normal and Block)\<close>

text \<open>
  Lines 33 to 37 (and 61 to 65): the threshold for \<open>prune_num\<close> entries to prune. The
  sentinel \<^verbatim>\<open>metric.min() - 1\<close> is computed in the element type of the metric.
\<close>

definition select_threshold :: "rounding \<Rightarrow> tensor \<Rightarrow> int \<Rightarrow> error + real" where
  "select_threshold A metric prune_num =
     (if prune_num = 0
      then (case t_min (vals metric) of
              Inl e \<Rightarrow> Inl e
            | Inr m \<Rightarrow> Inr (to_dtype A (m - 1)))
      else (case topk_smallest (vals metric) prune_num of
              Inl e \<Rightarrow> Inl e
            | Inr smallest \<Rightarrow> t_max smallest))"

text \<open>
  Lines 31 to 32 (59 to 60, 202 to 203): the metric that is ranked. Under continuous-mask
  mode it is the supplied metric times the compressed weight mask of the previous round.
\<close>

definition continuous_metric ::
  "(tensor \<Rightarrow> error + tensor) \<Rightarrow> bool \<Rightarrow> wrapper \<Rightarrow> tensor \<Rightarrow> error + tensor" where
  "continuous_metric compress cm w metric =
     (if cm then (case compress (weight_mask w) of
                    Inl e \<Rightarrow> Inl e
                  | Inr c \<Rightarrow> t_mul metric c)
      else Inr metric)"

text \<open>
  One iteration of the loop of \<^verbatim>\<open>NormalSparsityAllocator.generate_sparsity\<close>; the loop of
  \<^verbatim>\<open>BlockSparsityAllocator.generate_sparsity\<close> is the same text. The two classes differ in
  \<^verbatim>\<open>_compress_mask\<close> and \<^verbatim>\<open>_expand_mask\<close>, which are parameters here (those of the Normal
  allocator are inherited from the base class, those of the Block allocator are defined
  below). The state is the metrics dictionary, whose tensor \<^verbatim>\<open>metrics[name]\<close> the statement
  \<^verbatim>\<open>metric *= ...\<close> updates in place, and the masks built so far.
\<close>

definition layer_step ::
  "rounding \<Rightarrow> (tensor \<Rightarrow> error + tensor) \<Rightarrow> (string \<Rightarrow> tensor \<Rightarrow> error + layer_mask) \<Rightarrow>
   bool \<Rightarrow> string \<Rightarrow> wrapper \<Rightarrow> metrics \<times> masks \<Rightarrow> error + (metrics \<times> masks)" where
  "layer_step A compress expand cm name w st =
     (case fst st name of
        None \<Rightarrow> Inl AssertionError
      | Some metric0 \<Rightarrow>
         (case continuous_metric compress cm w metric0 of
            Inl e \<Rightarrow> Inl e
          | Inr metric \<Rightarrow>
             (case select_threshold A metric
                     (to_int (to_double A (total_sparsity w * real (numel metric)))) of
                Inl e \<Rightarrow> Inl e
              | Inr threshold \<Rightarrow>
                 (case expand name (gt metric threshold) of
                    Inl e \<Rightarrow> Inl e
                  | Inr lm \<Rightarrow>
                     (if cm
                      then (case t_mul (weight lm) (weight_mask w) of
                              Inl e \<Rightarrow> Inl e
                            | Inr wm \<Rightarrow>
                               Inr ((fst st)(name \<mapsto> metric), (snd st)(name \<mapsto> lm\<lparr>weight := wm\<rparr>)))
                      else Inr ((fst st)(name \<mapsto> metric), (snd st)(name \<mapsto> lm)))))))"

fun layer_loop ::
  "rounding \<Rightarrow> (tensor \<Rightarrow> error + tensor) \<Rightarrow> (string \<Rightarrow> tensor \<Rightarrow> error + layer_mask) \<Rightarrow>
   bool \<Rightarrow> (string \<times> wrapper) list \<Rightarrow> metrics \<times> masks \<Rightarrow> error + (metrics \<times> masks)" where
  "layer_loop A compress expand cm [] st = Inr st"
| "layer_loop A compress expand cm ((name, w) # rest) st =
     (case layer_step A compress expand cm name w st of
        Inl e \<Rightarrow> Inl e
      | Inr st' \<Rightarrow> layer_loop A compress expand cm rest st')"

text \<open>
  \<^verbatim>\<open>generate_sparsity(metrics)\<close> of the Normal and the Block allocator. The result is the
  returned masks together with the metrics dictionary as the call leaves it.
\<close>

definition generate_sparsity ::
  "rounding \<Rightarrow> (tensor \<Rightarrow> error + tensor) \<Rightarrow> (string \<Rightarrow> tensor \<Rightarrow> error + layer_mask) \<Rightarrow>
   allocator \<Rightarrow> metrics \<Rightarrow> error + (metrics \<times> masks)" where
  "generate_sparsity A compress expand self ms =
     layer_loop A compress expand (continuous_mask self) (modules_wrapper self)
       (ms, Map.empty)"

section \<open>The Block allocator's \<^verbatim>\<open>_compress_mask\<close> and \<^verbatim>\<open>_expand_mask\<close>\<close>

text \<open>The first \<open>n\<close> consecutive pieces of length \<open>sz\<close>: the slices along the leading axis.\<close>

primrec split_n :: "nat \<Rightarrow> nat \<Rightarrow> 'a list \<Rightarrow> 'a list list" where
  "split_n 0 sz xs = []"
| "split_n (Suc n) sz xs = take sz xs # split_n n sz (drop sz xs)"

text \<open>
  \<^verbatim>\<open>for dim in self.dim: mask_dim.remove(dim)\<close>: \<^verbatim>\<open>list.remove\<close> raises ValueError when the
  value is not in the list.
\<close>

fun remove_dims :: "nat list \<Rightarrow> nat list \<Rightarrow> error + nat list" where
  "remove_dims [] mask_dim = Inr mask_dim"
| "remove_dims (d # ds) mask_dim =
     (if List.member mask_dim d then remove_dims ds (remove1 d mask_dim) else Inl ValueError)"

text \<open>
  \<^verbatim>\<open>torch.sum(mask, dim=mask_dim)\<close>: the axes listed in \<open>mask_dim\<close> are summed away. \<open>ax\<close>
  is the index of the leading axis of the size still to be walked.
\<close>

fun kept_shape :: "nat list \<Rightarrow> nat \<Rightarrow> nat list \<Rightarrow> nat list" where
  "kept_shape mask_dim ax [] = []"
| "kept_shape mask_dim ax (n # ns) =
     (if List.member mask_dim ax then kept_shape mask_dim (Suc ax) ns
      else n # kept_shape mask_dim (Suc ax) ns)"

fun sum_axes :: "nat list \<Rightarrow> nat \<Rightarrow> nat list \<Rightarrow> real list \<Rightarrow> real list" where
  "sum_axes mask_dim ax [] xs = xs"
| "sum_axes mask_dim ax (n # ns) xs =
     (if List.member mask_dim ax
      then foldr (map2 (+)) (map (sum_axes mask_dim (Suc ax) ns) (split_n n (prod_list ns) xs))
             (replicate (prod_list (kept_shape mask_dim (Suc ax) ns)) 0)
      else concat (map (sum_axes mask_dim (Suc ax) ns) (split_n n (prod_list ns) xs)))"

definition t_sum :: "tensor \<Rightarrow> nat list \<Rightarrow> tensor" where
  "t_sum m mask_dim =
     \<lparr>shape = kept_shape mask_dim 0 (shape m), vals = sum_axes mask_dim 0 (shape m) (vals m)\<rparr>"

text \<open>
  \<^verbatim>\<open>F.avg_pool2d(x, kernel_size, ceil_mode=True, count_include_pad=False)\<close> on one matrix
  given as its rows: windows of \<open>p\<close> rows and \<open>q\<close> columns that do not overlap (the stride
  is the kernel size); a window at the edge holds the rows and columns that are left, and
  the average is over the entries in range only.
\<close>

definition mean :: "real list \<Rightarrow> real" where
  "mean xs = sum_list xs / real (length xs)"

function pool_cols :: "nat \<Rightarrow> real list list \<Rightarrow> real list" where
  "pool_cols q rg =
     (if q = 0 \<or> rg = [] \<or> hd rg = [] then []
      else mean (concat (map (take q) rg)) # pool_cols q (map (drop q) rg))"
  by pat_completeness auto
termination
  by (relation "measure (\<lambda>(q, rg). length (hd rg))") (auto simp: hd_map)

function pool_rows :: "nat \<Rightarrow> nat \<Rightarrow> real list list \<Rightarrow> real list list" where
  "pool_rows p q rows =
     (if p = 0 \<or> rows = [] then []
      else pool_cols q (take p rows) # pool_rows p q (drop p rows))"
  by pat_completeness auto
termination
  by (relation "measure (\<lambda>(p, q, rows). length rows)") auto

definition pool_matrix :: "nat \<Rightarrow> nat \<Rightarrow> nat \<Rightarrow> nat \<Rightarrow> real list \<Rightarrow> real list" where
  "pool_matrix p q h w xs = concat (pool_rows p q (split_n h w xs))"

definition ceil_div :: "nat \<Rightarrow> nat \<Rightarrow> nat" where
  "ceil_div n k = (n + k - 1) div k"

text \<open>
  The kernel: a list of one int \<open>[k]\<close> stands for \<open>(k, k)\<close>, a list of two for itself, any
  other length raises.
\<close>

fun kernel_of :: "nat list \<Rightarrow> (nat \<times> nat) option" where
  "kernel_of [k] = Some (k, k)"
| "kernel_of [p, q] = Some (p, q)"
| "kernel_of ks = None"

text \<open>
  \<^verbatim>\<open>F.avg_pool2d(mask.unsqueeze(0), kernel_size=self.block_sparse_size, ceil_mode=True,
  count_include_pad=False).squeeze(0)\<close>. The pooled input must have three or four axes, so
  the mask has two (one matrix) or three (a stack of matrices, each pooled on its own); a
  zero kernel and an empty axis raise.
\<close>

definition avg_pool2d :: "tensor \<Rightarrow> nat list \<Rightarrow> error + tensor" where
  "avg_pool2d m ks =
     (case kernel_of ks of
        None \<Rightarrow> Inl RuntimeError
      | Some (p, q) \<Rightarrow>
         (if p = 0 \<or> q = 0 then Inl RuntimeError
          else (case shape m of
                  [h, w] \<Rightarrow>
                    (if h = 0 \<or> w = 0 then Inl RuntimeError
                     else Inr \<lparr>shape = [ceil_div h p, ceil_div w q],
                               vals = pool_matrix p q h w (vals m)\<rparr>)
                | [a, h, w] \<Rightarrow>
                    (if a = 0 \<or> h = 0 \<or> w = 0 then Inl RuntimeError
                     else Inr \<lparr>shape = [a, ceil_div h p, ceil_div w q],
                               vals = concat (map (pool_matrix p q h w)
                                                (split_n a (h * w) (vals m)))\<rparr>)
                | _ \<Rightarrow> Inl RuntimeError)))"

text \<open>\<^verbatim>\<open>(mask != 0).type_as(mask)\<close>.\<close>

definition nonzero :: "tensor \<Rightarrow> tensor" where
  "nonzero m = m\<lparr>vals := map (\<lambda>x. if x \<noteq> 0 then 1 else 0) (vals m)\<rparr>"

text \<open>\<^verbatim>\<open>BlockSparsityAllocator._compress_mask\<close>, lines 72 to 112.\<close>

definition Block_compress_mask :: "allocator \<Rightarrow> tensor \<Rightarrow> error + tensor" where
  "Block_compress_mask self msk =
     (case (case dim_opt self of
              None \<Rightarrow> Inr msk
            | Some ds \<Rightarrow>
               (if length (shape msk) = 1 \<or> length ds = length (shape msk) then Inr msk
                else (case remove_dims ds [0..<length (shape msk)] of
                        Inl e \<Rightarrow> Inl e
                      | Inr mask_dim \<Rightarrow> Inr (t_sum msk mask_dim)))) of
        Inl e \<Rightarrow> Inl e
      | Inr m \<Rightarrow>
         (case (case block_sparse_size self of
                  None \<Rightarrow> Inr m
                | Some ks \<Rightarrow> avg_pool2d m ks) of
            Inl e \<Rightarrow> Inl e
          | Inr pooled \<Rightarrow> Inr (nonzero pooled)))"

text \<open>
  Lines 130 to 138: every cell of the reduced mask is repeated \<open>block_width\<close> times along
  axis \<open>i\<close>, for each \<open>i\<close> of \<^verbatim>\<open>enumerate(self.block_sparse_size)\<close>. \<^verbatim>\<open>unsqueeze(i + 1)\<close>
  raises when the mask has fewer axes than the block size has entries.
\<close>

fun tile_blocks :: "nat list \<Rightarrow> nat list \<Rightarrow> real list \<Rightarrow> real list" where
  "tile_blocks [] sh xs = xs"
| "tile_blocks (b # bs) [] xs = xs"
| "tile_blocks (b # bs) (n # ns) xs =
     concat (map (\<lambda>c. concat (replicate b (tile_blocks bs ns c))) (split_n n (prod_list ns) xs))"

fun tile_shape :: "nat list \<Rightarrow> nat list \<Rightarrow> nat list" where
  "tile_shape [] sh = sh"
| "tile_shape (b # bs) [] = []"
| "tile_shape (b # bs) (n # ns) = (n * b) # tile_shape bs ns"

definition block_expand :: "nat list \<Rightarrow> tensor \<Rightarrow> error + tensor" where
  "block_expand bs m =
     (if length (shape m) < length bs then Inl IndexError
      else Inr \<lparr>shape = tile_shape bs (shape m), vals = tile_blocks bs (shape m) (vals m)\<rparr>)"

text \<open>
  \<^verbatim>\<open>weight_mask.resize_(weight_size)\<close>, line 144: the tensor keeps its storage and reads it
  with the new size, so the result is the first \<open>prod weight_size\<close> elements in row-major
  order. A larger size than the storage holds leaves the new elements unwritten.
\<close>

definition resize :: "tensor \<Rightarrow> nat list \<Rightarrow> error + tensor" where
  "resize m sz =
     (if prod_list sz \<le> length (vals m)
      then Inr \<lparr>shape = sz, vals = take (prod_list sz) (vals m)\<rparr>
      else Inl Uninitialized)"

text \<open>
  Line 152: \<^verbatim>\<open>assert all(weight_size[j] == weight_mask.size(i) for i, j in
  enumerate(self.dim))\<close>, after the resize has given the mask the weight's size.
\<close>

fun check_dims :: "nat list \<Rightarrow> nat \<Rightarrow> nat list \<Rightarrow> error option" where
  "check_dims sz i [] = None"
| "check_dims sz i (j # js) =
     (if length sz \<le> j then Some IndexError
      else if sz ! j \<noteq> sz ! i then Some AssertionError
      else check_dims sz (Suc i) js)"

text \<open>Line 155: \<^verbatim>\<open>[idxs.pop(i) for i in reversed(self.dim)]\<close>.\<close>

fun pop_dims :: "nat list \<Rightarrow> nat list \<Rightarrow> error + nat list" where
  "pop_dims [] idxs = Inr idxs"
| "pop_dims (i # is) idxs =
     (if i < length idxs then pop_dims is (take i idxs @ drop (Suc i) idxs)
      else Inl IndexError)"

text \<open>
  \<^verbatim>\<open>BlockSparsityAllocator._expand_mask\<close>, lines 114 to 164. In the branch with
  \<^verbatim>\<open>self.dim\<close> set, the first assertion has made the mask's number of axes equal to
  \<^verbatim>\<open>len(self.dim)\<close>; when axes are left in \<open>idxs\<close> the mask gets more axes than the weight
  and \<^verbatim>\<open>expand\<close> raises.
\<close>

definition Block_expand_mask :: "allocator \<Rightarrow> string \<Rightarrow> tensor \<Rightarrow> error + layer_mask" where
  "Block_expand_mask self name msk =
     (case (case block_sparse_size self of
              None \<Rightarrow> Inr msk
            | Some bs \<Rightarrow> block_expand bs msk) of
        Inl e \<Rightarrow> Inl e
      | Inr tiled \<Rightarrow>
         (case map_of (modules_wrapper self) name of
            None \<Rightarrow> Inl KeyError
          | Some w \<Rightarrow>
             (case resize tiled (weight_size w) of
                Inl e \<Rightarrow> Inl e
              | Inr weight_mask' \<Rightarrow>
                 (case dim_opt self of
                    None \<Rightarrow> Inr \<lparr>weight = weight_mask', bias = None\<rparr>
                  | Some ds \<Rightarrow>
                     (if length (weight_size w) \<noteq> length ds then Inl AssertionError
                      else (case check_dims (weight_size w) 0 ds of
                              Some e \<Rightarrow> Inl e
                            | None \<Rightarrow>
                               (case pop_dims (rev ds) [0..<length (weight_size w)] of
                                  Inl e \<Rightarrow> Inl e
                                | Inr idxs \<Rightarrow>
                                   (if idxs \<noteq> [] then Inl RuntimeError
                                    else Inr \<lparr>weight = weight_mask',
                                              bias = (case bias_mask w of
                                                        None \<Rightarrow> None
                                                      | Some b \<Rightarrow>
                                                         (if shape weight_mask' = shape b
                                                          then Some weight_mask'
                                                          else None))\<rparr>))))))))"

text \<open>\<^verbatim>\<open>BlockSparsityAllocator.generate_sparsity\<close>, lines 49 to 70.\<close>

definition Block_generate_sparsity ::
  "rounding \<Rightarrow> allocator \<Rightarrow> metrics \<Rightarrow> error + (metrics \<times> masks)" where
  "Block_generate_sparsity A self ms =
     generate_sparsity A (Block_compress_mask self) (Block_expand_mask self) self ms"

section \<open>The Global allocator\<close>

text \<open>
  The state of the loop of \<^verbatim>\<open>_calculate_threshold\<close>: \<^verbatim>\<open>metric_list\<close>, \<^verbatim>\<open>sub_thresholds\<close>
  and \<^verbatim>\<open>total_weight_num\<close>.
\<close>

text \<open>
  An entry of \<^verbatim>\<open>sub_thresholds\<close> is a Python float where line 214 stores it
  (\<^verbatim>\<open>metric.min().item() - 1\<close>) and a tensor without axes where line 218 does
  (\<^verbatim>\<open>stay_metric.max()\<close>).
\<close>

datatype scalar = PyFloat real | Tensor0 real

type_synonym threshold_state = "real list list \<times> (string \<rightharpoonup> scalar) \<times> nat"

text \<open>
  \<^verbatim>\<open>stay_metric_num\<close>, lines 205 to 212, for a metric with elements and a weight mask with
  elements (the divisions raise ZeroDivisionError otherwise). \<open>caps\<close> is the dictionary
  \<^verbatim>\<open>max_sparsity_per_layer\<close> of the group's first layer.
\<close>

definition stay_metric_num ::
  "rounding \<Rightarrow> (string \<times> real) list \<Rightarrow> string \<Rightarrow> wrapper \<Rightarrow> tensor \<Rightarrow> int" where
  "stay_metric_num A caps name w metric =
     (let layer_weight_num = prod_list (weight_size w);
          retention_ratio =
            to_double A (1 - (case map_of caps name of None \<Rightarrow> 1 | Some c \<Rightarrow> c));
          retention_numel = \<lceil>to_double A (retention_ratio * real layer_weight_num)\<rceil>;
          removed_metric_num =
            \<lceil>to_double A (real_of_int retention_numel
                           / to_double A (real (numel (weight_mask w)) / real (numel metric)))\<rceil>
      in int (numel metric) - removed_metric_num)"

text \<open>One iteration of the loop of lines 198 to 221.\<close>

text \<open>Lines 207 and 220: \<^verbatim>\<open>int(layer_weight_num / metric.numel())\<close>.\<close>

definition expend_times :: "rounding \<Rightarrow> wrapper \<Rightarrow> tensor \<Rightarrow> int" where
  "expend_times A w metric =
     to_int (to_double A (real (prod_list (weight_size w)) / real (numel metric)))"

definition threshold_step ::
  "rounding \<Rightarrow> (tensor \<Rightarrow> error + tensor) \<Rightarrow> allocator \<Rightarrow> (string \<times> real) list \<Rightarrow>
   string \<Rightarrow> tensor \<Rightarrow> threshold_state \<Rightarrow> error + threshold_state" where
  "threshold_step A compress self caps name metric0 st =
     (case map_of (modules_wrapper self) name of
        None \<Rightarrow> Inl KeyError
      | Some w \<Rightarrow>
         (case continuous_metric compress (continuous_mask self) w metric0 of
            Inl e \<Rightarrow> Inl e
          | Inr metric \<Rightarrow>
             (if numel metric = 0 \<or> numel (weight_mask w) = 0 then Inl ZeroDivisionError
              else if stay_metric_num A caps name w metric \<le> 0
              then (case t_min (vals metric) of
                      Inl e \<Rightarrow> Inl e
                    | Inr m \<Rightarrow>
                       Inr (fst st, (fst (snd st))(name \<mapsto> PyFloat (to_double A (m - 1))),
                            snd (snd st) + prod_list (weight_size w)))
              else (case topk_smallest (vals metric) (stay_metric_num A caps name w metric) of
                      Inl e \<Rightarrow> Inl e
                    | Inr stay_metric \<Rightarrow>
                       (case t_max stay_metric of
                          Inl e \<Rightarrow> Inl e
                        | Inr mx \<Rightarrow>
                           Inr (fst st @
                                  [if 1 < expend_times A w metric
                                   then concat (replicate (nat (expend_times A w metric))
                                                  stay_metric)
                                   else stay_metric],
                                (fst (snd st))(name \<mapsto> Tensor0 mx),
                                snd (snd st) + prod_list (weight_size w)))))))"

fun threshold_loop ::
  "rounding \<Rightarrow> (tensor \<Rightarrow> error + tensor) \<Rightarrow> allocator \<Rightarrow> (string \<times> real) list \<Rightarrow>
   (string \<times> tensor) list \<Rightarrow> threshold_state \<Rightarrow> error + threshold_state" where
  "threshold_loop A compress self caps [] st = Inr st"
| "threshold_loop A compress self caps ((name, metric) # rest) st =
     (case threshold_step A compress self caps name metric st of
        Inl e \<Rightarrow> Inl e
      | Inr st' \<Rightarrow> threshold_loop A compress self caps rest st')"

text \<open>
  Lines 223 to 228: the threshold of the group over the concatenated \<^verbatim>\<open>metric_list\<close>;
  \<^verbatim>\<open>torch.cat\<close> of an empty list raises.
\<close>

definition group_threshold :: "rounding \<Rightarrow> real list list \<Rightarrow> int \<Rightarrow> error + real" where
  "group_threshold A metric_list total_prune_num =
     (if metric_list = [] then Inl RuntimeError
      else if total_prune_num = 0
      then (case t_min (concat metric_list) of
              Inl e \<Rightarrow> Inl e
            | Inr m \<Rightarrow> Inr (to_double A (m - 1)))
      else (case topk_smallest (concat metric_list) total_prune_num of
              Inl e \<Rightarrow> Inl e
            | Inr smallest \<Rightarrow> t_max smallest))"

text \<open>
  \<^verbatim>\<open>GlobalSparsityAllocator._calculate_threshold\<close>, lines 189 to 228. The configuration is
  read from the wrapper of the group's first layer.
\<close>

definition calculate_threshold ::
  "rounding \<Rightarrow> (tensor \<Rightarrow> error + tensor) \<Rightarrow> allocator \<Rightarrow> (string \<times> tensor) list \<Rightarrow>
   error + (real \<times> (string \<rightharpoonup> scalar))" where
  "calculate_threshold A compress self group_metric_dict =
     (case group_metric_dict of
        [] \<Rightarrow> Inl IndexError
      | first # _ \<Rightarrow>
         (case map_of (modules_wrapper self) (fst first) of
            None \<Rightarrow> Inl KeyError
          | Some temp_wrapper \<Rightarrow>
             (case threshold_loop A compress self (max_sparsity_per_layer temp_wrapper)
                     group_metric_dict ([], Map.empty, 0) of
                Inl e \<Rightarrow> Inl e
              | Inr st \<Rightarrow>
                 (case group_threshold A (fst st)
                         (to_int (to_double A
                                    (total_sparsity temp_wrapper * real (snd (snd st))))) of
                    Inl e \<Rightarrow> Inl e
                  | Inr threshold \<Rightarrow> Inr (threshold, fst (snd st))))))"

text \<open>
  Line 183, \<^verbatim>\<open>min(threshold, sub_thresholds[name])\<close> and its comparison with the metric.
  \<^verbatim>\<open>threshold\<close> is a Python float. Python's \<^verbatim>\<open>min\<close> returns its first argument unless the
  second is less. Two Python floats are compared as they are; a tensor is compared with a
  Python float in the tensor's element type, to which the float is converted, also in
  \<^verbatim>\<open>torch.gt\<close>.
\<close>

definition effective_threshold :: "rounding \<Rightarrow> real \<Rightarrow> scalar \<Rightarrow> real" where
  "effective_threshold A threshold sub =
     (case sub of
        PyFloat s \<Rightarrow> to_dtype A (if s < threshold then s else threshold)
      | Tensor0 u \<Rightarrow> (if u < to_dtype A threshold then u else to_dtype A threshold))"

text \<open>Line 183: the decision of one layer, on the metric as it was passed in.\<close>

definition global_decision ::
  "rounding \<Rightarrow> real \<Rightarrow> (string \<rightharpoonup> scalar) \<Rightarrow> string \<Rightarrow> tensor \<Rightarrow> error + tensor" where
  "global_decision A threshold sub_thresholds name metric =
     (case sub_thresholds name of
        None \<Rightarrow> Inl KeyError
      | Some sub \<Rightarrow> Inr (gt metric (effective_threshold A threshold sub)))"

text \<open>Lines 182 to 186: the masks of the layers of one group.\<close>

fun global_masks ::
  "rounding \<Rightarrow> (string \<Rightarrow> tensor \<Rightarrow> error + layer_mask) \<Rightarrow> allocator \<Rightarrow> real \<Rightarrow>
   (string \<rightharpoonup> scalar) \<Rightarrow> (string \<times> tensor) list \<Rightarrow> masks \<Rightarrow> error + masks" where
  "global_masks A expand self threshold subs [] mk = Inr mk"
| "global_masks A expand self threshold subs ((name, metric) # rest) mk =
     (case global_decision A threshold subs name metric of
        Inl e \<Rightarrow> Inl e
      | Inr m \<Rightarrow>
         (case expand name m of
            Inl e \<Rightarrow> Inl e
          | Inr lm \<Rightarrow>
             (if continuous_mask self
              then (case map_of (modules_wrapper self) name of
                      None \<Rightarrow> Inl KeyError
                    | Some w \<Rightarrow>
                       (case t_mul (weight lm) (weight_mask w) of
                          Inl e \<Rightarrow> Inl e
                        | Inr wm \<Rightarrow>
                           global_masks A expand self threshold subs rest
                             (mk(name \<mapsto> lm\<lparr>weight := wm\<rparr>))))
              else global_masks A expand self threshold subs rest (mk(name \<mapsto> lm)))))"

text \<open>
  Line 178: \<^verbatim>\<open>{name: metrics[name] for name in names}\<close>; a name without a metric raises
  KeyError.
\<close>

fun lookup_all :: "metrics \<Rightarrow> string list \<Rightarrow> error + (string \<times> tensor) list" where
  "lookup_all ms [] = Inr []"
| "lookup_all ms (name # names) =
     (case ms name of
        None \<Rightarrow> Inl KeyError
      | Some metric \<Rightarrow>
         (case lookup_all ms names of
            Inl e \<Rightarrow> Inl e
          | Inr rest \<Rightarrow> Inr ((name, metric) # rest)))"

fun lookup_groups :: "metrics \<Rightarrow> string list list \<Rightarrow> error + (string \<times> tensor) list list" where
  "lookup_groups ms [] = Inr []"
| "lookup_groups ms (names # groups) =
     (case lookup_all ms names of
        Inl e \<Rightarrow> Inl e
      | Inr g \<Rightarrow>
         (case lookup_groups ms groups of
            Inl e \<Rightarrow> Inl e
          | Inr gs \<Rightarrow> Inr (g # gs)))"

fun global_loop ::
  "rounding \<Rightarrow> (tensor \<Rightarrow> error + tensor) \<Rightarrow> (string \<Rightarrow> tensor \<Rightarrow> error + layer_mask) \<Rightarrow>
   allocator \<Rightarrow> (string \<times> tensor) list list \<Rightarrow> masks \<Rightarrow> error + masks" where
  "global_loop A compress expand self [] mk = Inr mk"
| "global_loop A compress expand self (g # gs) mk =
     (case calculate_threshold A compress self g of
        Inl e \<Rightarrow> Inl e
      | Inr (threshold, subs) \<Rightarrow>
         (case global_masks A expand self threshold subs g mk of
            Inl e \<Rightarrow> Inl e
          | Inr mk' \<Rightarrow> global_loop A compress expand self gs mk'))"

text \<open>
  \<^verbatim>\<open>GlobalSparsityAllocator.generate_sparsity\<close>, lines 175 to 187. \<open>module_groups\<close> is the
  list of the values of \<^verbatim>\<open>self.pruner.generate_module_groups()\<close>, each the names of the
  layers of one group. The method never assigns to a metric (line 203 builds a new tensor),
  so the metrics are not part of the result.
\<close>

definition Global_generate_sparsity ::
  "rounding \<Rightarrow> (tensor \<Rightarrow> error + tensor) \<Rightarrow> (string \<Rightarrow> tensor \<Rightarrow> error + layer_mask) \<Rightarrow>
   allocator \<Rightarrow> string list list \<Rightarrow> metrics \<Rightarrow> error + masks" where
  "Global_generate_sparsity A compress expand self module_groups ms =
     (case lookup_groups ms module_groups of
        Inl e \<Rightarrow> Inl e
      | Inr grouped_metrics \<Rightarrow> global_loop A compress expand self grouped_metrics Map.empty)"

section \<open>The dependency-aware allocator\<close>

text \<open>
  \<^verbatim>\<open>Conv2dDependencyAwareAllocator\<close> is built with a single pruned dimension, so its
  metrics are one-dimensional; the model reads them as vectors. The two dependency tables
  that \<^verbatim>\<open>_get_dependency\<close> obtains from the traced graph are parameters: \<open>channel_depen\<close>,
  the sets of layer names in the order the source iterates them, and \<open>group_depen\<close>.

  Lines 252 to 258. \<^verbatim>\<open>grouped_metric\<close> holds the very tensors of \<^verbatim>\<open>metrics\<close>, which line 256
  updates in place; the model therefore keeps the names and reads the tensors from the
  updated dictionary afterwards. A name without a metric is left out by the guard
  \<^verbatim>\<open>if name in metrics\<close>.
\<close>

fun compress_members ::
  "(tensor \<Rightarrow> error + tensor) \<Rightarrow> allocator \<Rightarrow> string list \<Rightarrow> metrics \<Rightarrow> error + metrics" where
  "compress_members compress self [] ms = Inr ms"
| "compress_members compress self (name # names) ms =
     (case ms name of
        None \<Rightarrow> Inl KeyError
      | Some metric \<Rightarrow>
         (case map_of (modules_wrapper self) name of
            None \<Rightarrow> Inl KeyError
          | Some w \<Rightarrow>
             (case compress (weight_mask w) of
                Inl e \<Rightarrow> Inl e
              | Inr c \<Rightarrow>
                 (case t_mul metric c of
                    Inl e \<Rightarrow> Inl e
                  | Inr metric' \<Rightarrow> compress_members compress self names (ms(name \<mapsto> metric'))))))"

fun group_members ::
  "(tensor \<Rightarrow> error + tensor) \<Rightarrow> allocator \<Rightarrow> string list list \<Rightarrow> metrics \<Rightarrow>
   error + (string list list \<times> metrics)" where
  "group_members compress self [] ms = Inr ([], ms)"
| "group_members compress self (names # sets) ms =
     (case (if continuous_mask self
            then compress_members compress self (filter (\<lambda>name. ms name \<noteq> None) names) ms
            else Inr ms) of
        Inl e \<Rightarrow> Inl e
      | Inr ms' \<Rightarrow>
         (case group_members compress self sets ms' of
            Inl e \<Rightarrow> Inl e
          | Inr (groups, ms'') \<Rightarrow>
             Inr (if filter (\<lambda>name. ms name \<noteq> None) names = [] then groups
                  else filter (\<lambda>name. ms name \<noteq> None) names # groups, ms'')))"

text \<open>
  \<^verbatim>\<open>_group_metric_calculate\<close>, lines 294 to 303: the elementwise sum of the members'
  metrics, which must all have the size of the first.
\<close>

definition group_metric_calculate :: "rounding \<Rightarrow> tensor list \<Rightarrow> error + real list" where
  "group_metric_calculate A group_metrics =
     (case group_metrics of
        [] \<Rightarrow> Inl IndexError
      | first # _ \<Rightarrow>
         (if list_all (\<lambda>m. shape m = shape first \<and> length (vals m) = length (vals first))
               group_metrics
          then Inr (foldl (\<lambda>acc m. map (to_dtype A) (map2 (+) acc (vals m)))
                      (replicate (length (vals first)) 0) group_metrics)
          else Inl AssertionError))"

text \<open>
  Lines 273 to 280: the mask of segment \<open>gid\<close>. A Python slice is cut to the range of the
  vector.
\<close>

definition segment :: "real list \<Rightarrow> nat \<Rightarrow> nat \<Rightarrow> real list" where
  "segment group_metric conv2d_group_step gid =
     take conv2d_group_step (drop (gid * conv2d_group_step) group_metric)"

definition segment_mask :: "real list \<Rightarrow> int \<Rightarrow> nat \<Rightarrow> nat \<Rightarrow> error + real list" where
  "segment_mask group_metric pruned_per_conv2d_group conv2d_group_step gid =
     (if 0 < pruned_per_conv2d_group
      then (case topk_smallest (segment group_metric conv2d_group_step gid)
                   pruned_per_conv2d_group of
              Inl e \<Rightarrow> Inl e
            | Inr smallest \<Rightarrow>
               (case t_max smallest of
                  Inl e \<Rightarrow> Inl e
                | Inr threshold \<Rightarrow>
                   Inr (map (\<lambda>x. if threshold < x then 1 else 0)
                          (segment group_metric conv2d_group_step gid))))
      else Inr (replicate conv2d_group_step 1))"

fun segment_masks :: "real list \<Rightarrow> int \<Rightarrow> nat \<Rightarrow> nat list \<Rightarrow> error + real list list" where
  "segment_masks group_metric pruned conv2d_group_step [] = Inr []"
| "segment_masks group_metric pruned conv2d_group_step (gid # gids) =
     (case segment_mask group_metric pruned conv2d_group_step gid of
        Inl e \<Rightarrow> Inl e
      | Inr m \<Rightarrow>
         (case segment_masks group_metric pruned conv2d_group_step gids of
            Inl e \<Rightarrow> Inl e
          | Inr rest \<Rightarrow> Inr (m # rest)))"

text \<open>
  Lines 266 to 281: the mask shared by the members of one dependency set, from the summed
  metric, the least of the members' sparsities and the members' channel groups. A channel
  group of 0 makes the least common multiple 0 and the division fail; \<^verbatim>\<open>torch.cat\<close> of no
  segment raises.
\<close>

definition shared_mask :: "rounding \<Rightarrow> real list \<Rightarrow> real \<Rightarrow> nat list \<Rightarrow> error + real list" where
  "shared_mask A group_metric min_sparsity conv2d_groups =
     (let max_conv2d_group = foldl lcm 1 conv2d_groups in
      if max_conv2d_group = 0 then Inl ZeroDivisionError
      else (case segment_masks group_metric
                   (to_int (to_double A
                              (to_double A (real (length group_metric) / real max_conv2d_group)
                               * min_sparsity)))
                   (nat (to_int (to_double A
                                   (real (length group_metric) / real max_conv2d_group))))
                   [0..<max_conv2d_group] of
              Inl e \<Rightarrow> Inl e
            | Inr group_mask \<Rightarrow> Inr (concat group_mask)))"

text \<open>The product \<^verbatim>\<open>metric * group_mask\<close> of two vectors, with the broadcasting of a vector
  of length one.\<close>

definition mul_1d :: "real list \<Rightarrow> real list \<Rightarrow> error + real list" where
  "mul_1d xs ys =
     (if length xs = length ys then Inr (map2 (*) xs ys)
      else if length xs = 1 then Inr (map (\<lambda>y. hd xs * y) ys)
      else if length ys = 1 then Inr (map (\<lambda>x. x * hd ys) xs)
      else Inl RuntimeError)"

text \<open>
  Lines 285 to 288: the second pass of one member. The threshold is the maximum of the
  \<open>pruned_num\<close> smallest entries whatever \<open>pruned_num\<close> is: there is no branch for 0.
\<close>

definition member_mask :: "rounding \<Rightarrow> real \<Rightarrow> tensor \<Rightarrow> real list \<Rightarrow> error + tensor" where
  "member_mask A sparsity metric group_mask =
     (case mul_1d (vals metric) group_mask of
        Inl e \<Rightarrow> Inl e
      | Inr masked \<Rightarrow>
         (case topk_smallest masked (to_int (to_double A (sparsity * real (length masked)))) of
            Inl e \<Rightarrow> Inl e
          | Inr smallest \<Rightarrow>
             (case t_max smallest of
                Inl e \<Rightarrow> Inl e
              | Inr threshold \<Rightarrow>
                 Inr \<lparr>shape = [length masked],
                      vals = map (\<lambda>x. if threshold < x then 1 else 0) masked\<rparr>)))"

text \<open>Lines 283 to 291: the masks of the members of one dependency set.\<close>

fun member_masks ::
  "rounding \<Rightarrow> (string \<Rightarrow> tensor \<Rightarrow> error + layer_mask) \<Rightarrow> allocator \<Rightarrow> real list \<Rightarrow>
   (string \<times> tensor) list \<Rightarrow> masks \<Rightarrow> error + masks" where
  "member_masks A expand self group_mask [] mk = Inr mk"
| "member_masks A expand self group_mask ((name, metric) # rest) mk =
     (case map_of (modules_wrapper self) name of
        None \<Rightarrow> Inl KeyError
      | Some w \<Rightarrow>
         (case member_mask A (total_sparsity w) metric group_mask of
            Inl e \<Rightarrow> Inl e
          | Inr m \<Rightarrow>
             (case expand name m of
                Inl e \<Rightarrow> Inl e
              | Inr lm \<Rightarrow>
                 (if continuous_mask self
                  then (case t_mul (weight lm) (weight_mask w) of
                          Inl e \<Rightarrow> Inl e
                        | Inr wm \<Rightarrow>
                           member_masks A expand self group_mask rest
                             (mk(name \<mapsto> lm\<lparr>weight := wm\<rparr>)))
                  else member_masks A expand self group_mask rest (mk(name \<mapsto> lm))))))"

text \<open>Lines 262 and 265: the dictionary lookups of the members, each raising KeyError.\<close>

fun lookup_names :: "(string \<times> 'a) list \<Rightarrow> string list \<Rightarrow> error + 'a list" where
  "lookup_names table [] = Inr []"
| "lookup_names table (name # names) =
     (case map_of table name of
        None \<Rightarrow> Inl KeyError
      | Some v \<Rightarrow>
         (case lookup_names table names of
            Inl e \<Rightarrow> Inl e
          | Inr vs \<Rightarrow> Inr (v # vs)))"

text \<open>Lines 260 to 291: one dependency set.\<close>

definition dependency_group ::
  "rounding \<Rightarrow> (string \<Rightarrow> tensor \<Rightarrow> error + layer_mask) \<Rightarrow> allocator \<Rightarrow>
   (string \<times> nat) list \<Rightarrow> (string \<times> tensor) list \<Rightarrow> masks \<Rightarrow> error + masks" where
  "dependency_group A expand self group_depen group_metric_dict mk =
     (case group_metric_calculate A (map snd group_metric_dict) of
        Inl e \<Rightarrow> Inl e
      | Inr group_metric \<Rightarrow>
         (case lookup_names (modules_wrapper self) (map fst group_metric_dict) of
            Inl e \<Rightarrow> Inl e
          | Inr ws \<Rightarrow>
             (case lookup_names group_depen (map fst group_metric_dict) of
                Inl e \<Rightarrow> Inl e
              | Inr conv2d_groups \<Rightarrow>
                 (case shared_mask A group_metric (Min (set (map total_sparsity ws)))
                         conv2d_groups of
                    Inl e \<Rightarrow> Inl e
                  | Inr group_mask \<Rightarrow>
                     member_masks A expand self group_mask group_metric_dict mk))))"

fun dependency_loop ::
  "rounding \<Rightarrow> (string \<Rightarrow> tensor \<Rightarrow> error + layer_mask) \<Rightarrow> allocator \<Rightarrow>
   (string \<times> nat) list \<Rightarrow> metrics \<Rightarrow> string list list \<Rightarrow> masks \<Rightarrow> error + masks" where
  "dependency_loop A expand self group_depen ms [] mk = Inr mk"
| "dependency_loop A expand self group_depen ms (names # groups) mk =
     (case lookup_all ms names of
        Inl e \<Rightarrow> Inl e
      | Inr group_metric_dict \<Rightarrow>
         (case dependency_group A expand self group_depen group_metric_dict mk of
            Inl e \<Rightarrow> Inl e
          | Inr mk' \<Rightarrow> dependency_loop A expand self group_depen ms groups mk'))"

text \<open>
  \<^verbatim>\<open>Conv2dDependencyAwareAllocator.generate_sparsity\<close>, lines 248 to 292: the masks and the
  metrics dictionary as the call leaves it.
\<close>

definition Dependency_generate_sparsity ::
  "rounding \<Rightarrow> (tensor \<Rightarrow> error + tensor) \<Rightarrow> (string \<Rightarrow> tensor \<Rightarrow> error + layer_mask) \<Rightarrow>
   allocator \<Rightarrow> string list list \<Rightarrow> (string \<times> nat) list \<Rightarrow> metrics \<Rightarrow>
   error + (metrics \<times> masks)" where
  "Dependency_generate_sparsity A compress expand self channel_depen group_depen ms =
     (case group_members compress self channel_depen ms of
        Inl e \<Rightarrow> Inl e
      | Inr (grouped_metrics, ms') \<Rightarrow>
         (case dependency_loop A expand self group_depen ms' grouped_metrics Map.empty of
            Inl e \<Rightarrow> Inl e
          | Inr mk \<Rightarrow> Inr (ms', mk)))"

section \<open>Threshold selection and the layer-local decision\<close>

text \<open>The number of entries a mask prunes: its zeros.\<close>

definition pruned_count :: "tensor \<Rightarrow> nat" where
  "pruned_count t = length (filter (\<lambda>x. x = 0) (vals t))"






text \<open>The definitions a concrete call of an allocator unfolds.\<close>

lemmas eval_defs = exact_def continuous_metric_def expend_times_def effective_threshold_def
  Block_generate_sparsity_def generate_sparsity_def layer_step_def
  select_threshold_def Block_compress_mask_def Block_expand_mask_def nonzero_def t_mul_def
  resize_def gt_def numel_def to_int_def topk_smallest_def t_max_def t_min_def sort_key_def
  Global_generate_sparsity_def calculate_threshold_def threshold_step_def stay_metric_num_def
  group_threshold_def global_decision_def
  Dependency_generate_sparsity_def dependency_group_def group_metric_calculate_def
  shared_mask_def segment_mask_def segment_def member_mask_def mul_1d_def

section \<open>Layers without a metric\<close>


lemma layer_step_dom:
  assumes "layer_step A C E cm n w st = Inr st2"
  shows "fst st n \<noteq> None \<and> (\<forall>x. (fst st2 x = None) = (fst st x = None))"
  using assms by (auto simp: layer_step_def continuous_metric_def split: option.splits sum.splits if_splits)

lemma layer_step_other:
  assumes "layer_step A C E cm n w st = Inr st2" "n \<noteq> name"
  shows "fst st2 name = fst st name \<and> snd st2 name = snd st name"
  using assms by (auto simp: layer_step_def continuous_metric_def split: option.splits sum.splits if_splits)

lemma layer_loop_other:
  assumes "layer_loop A C E cm ws st = Inr st'" "name \<notin> fst ` set ws"
  shows "fst st' name = fst st name \<and> snd st' name = snd st name"
  using assms
proof (induction ws arbitrary: st)
  case Nil
  then show ?case by simp
next
  case (Cons a ws)
  obtain n w where a: "a = (n, w)" by (cases a)
  from Cons.prems obtain st2 where s: "layer_step A C E cm n w st = Inr st2"
    and l: "layer_loop A C E cm ws st2 = Inr st'"
    by (auto simp: a split: sum.splits)
  from Cons.prems have "n \<noteq> name" "name \<notin> fst ` set ws" by (auto simp: a)
  with Cons.IH[OF l] layer_step_other[OF s] show ?case by simp
qed

lemma layer_loop_missing:
  assumes "(name, w) \<in> set ws" "fst st name = None"
  shows "isl (layer_loop A C E cm ws st)"
  using assms
proof (induction ws arbitrary: st)
  case Nil
  then show ?case by simp
next
  case (Cons a ws)
  obtain n w' where a: "a = (n, w')" by (cases a)
  show ?case
  proof (cases "layer_step A C E cm n w' st")
    case (Inl e)
    then show ?thesis by (simp add: a)
  next
    case (Inr st2)
    from layer_step_dom[OF Inr] Cons.prems have "n \<noteq> name" "fst st2 name = None" by auto
    with Cons.prems have "(name, w) \<in> set ws" by (auto simp: a)
    from Cons.IH[OF this \<open>fst st2 name = None\<close>] Inr show ?thesis by (simp add: a)
  qed
qed

lemma lookup_all_missing:
  assumes "name \<in> set names" "ms name = None"
  shows "lookup_all ms names = Inl KeyError"
  using assms by (induction names) (auto split: option.splits sum.splits)

lemma lookup_all_error: "lookup_all ms names = Inl e \<Longrightarrow> e = KeyError"
  by (induction names arbitrary: e) (auto split: option.splits sum.splits)

lemma lookup_groups_missing:
  assumes "names \<in> set groups" "name \<in> set names" "ms name = None"
  shows "lookup_groups ms groups = Inl KeyError"
  using assms
proof (induction groups)
  case Nil
  then show ?case by simp
next
  case (Cons g gs)
  show ?case
  proof (cases "lookup_all ms g")
    case (Inl e)
    then show ?thesis using lookup_all_error[OF Inl] by simp
  next
    case (Inr r)
    with Cons.prems lookup_all_missing[of name g ms] have "names \<in> set gs" by auto
    from Cons.IH[OF this Cons.prems(2,3)] Inr show ?thesis by simp
  qed
qed


lemma compress_members_dom:
  assumes "compress_members C self names ms = Inr ms'"
  shows "(ms' x = None) = (ms x = None)"
  using assms
  by (induction names arbitrary: ms) (auto split: option.splits sum.splits if_splits)

lemma group_members_dom:
  assumes "group_members C self sets ms = Inr (groups, ms')"
  shows "(\<forall>x. (ms' x = None) = (ms x = None)) \<and> (\<forall>g\<in>set groups. \<forall>n\<in>set g. ms n \<noteq> None)"
  using assms
proof (induction sets arbitrary: ms groups ms')
  case Nil
  then show ?case by simp
next
  case (Cons names sets)
  let ?present = "filter (\<lambda>name. ms name \<noteq> None) names"
  from Cons.prems obtain ms1 groups1 where
    c: "(if continuous_mask self then compress_members C self ?present ms else Inr ms) = Inr ms1"
    and g: "group_members C self sets ms1 = Inr (groups1, ms')"
    and gr: "groups = (if ?present = [] then groups1 else ?present # groups1)"
    by (auto split: sum.splits prod.splits)
  have d1: "\<And>x. (ms1 x = None) = (ms x = None)"
    using c compress_members_dom by (auto split: if_splits)
  from Cons.IH[OF g] d1 gr show ?case by auto
qed

lemma member_masks_keys:
  assumes "member_masks A E self gm g mk = Inr mk'" "mk' name \<noteq> None"
  shows "mk name \<noteq> None \<or> name \<in> fst ` set g"
  using assms
proof (induction g arbitrary: mk)
  case Nil
  then show ?case by simp
next
  case (Cons a g)
  obtain n m where a: "a = (n, m)" by (cases a)
  from Cons.prems(1) obtain mk1 where l: "member_masks A E self gm g mk1 = Inr mk'"
    and k: "\<forall>x. x \<noteq> n \<longrightarrow> mk1 x = mk x"
    by (auto simp: a split: option.splits sum.splits if_splits)
  from Cons.IH[OF l Cons.prems(2)] k show ?case by (auto simp: a)
qed

lemma lookup_all_names: "lookup_all ms names = Inr g \<Longrightarrow> map fst g = names"
  by (induction names arbitrary: g) (auto split: option.splits sum.splits)

lemma dependency_loop_keys:
  assumes "dependency_loop A E self gd ms groups mk = Inr mk'" "mk' name \<noteq> None"
  shows "mk name \<noteq> None \<or> (\<exists>g\<in>set groups. name \<in> set g)"
  using assms
proof (induction groups arbitrary: mk)
  case Nil
  then show ?case by simp
next
  case (Cons names groups)
  from Cons.prems(1) obtain g mk1 where la: "lookup_all ms names = Inr g"
    and dg: "dependency_group A E self gd g mk = Inr mk1"
    and l: "dependency_loop A E self gd ms groups mk1 = Inr mk'"
    by (auto split: sum.splits)
  from dg obtain gm where mm: "member_masks A E self gm g mk = Inr mk1"
    by (auto simp: dependency_group_def split: sum.splits)
  from Cons.IH[OF l Cons.prems(2)] show ?case
  proof
    assume "mk1 name \<noteq> None"
    from member_masks_keys[OF mm this] lookup_all_names[OF la] show ?thesis
      by (metis list.set_intros(1) list.set_map)
  next
    assume "\<exists>g\<in>set groups. name \<in> set g"
    then show ?thesis by auto
  qed
qed

lemma dependency_skips_missing:
  assumes "Dependency_generate_sparsity A C E self cd gd ms = Inr (ms', mk)" "ms name = None"
  shows "mk name = None \<and> ms' name = None"
proof -
  from assms(1) obtain groups where gm: "group_members C self cd ms = Inr (groups, ms')"
    and dl: "dependency_loop A E self gd ms' groups Map.empty = Inr mk"
    by (auto simp: Dependency_generate_sparsity_def split: sum.splits prod.splits)
  from group_members_dom[OF gm] assms(2) have a: "ms' name = None" by simp
  have b: "\<not> (\<exists>g\<in>set groups. name \<in> set g)"
  proof
    assume "\<exists>g\<in>set groups. name \<in> set g"
    then obtain g where "g \<in> set groups" "name \<in> set g" by blast
    with group_members_dom[OF gm] have "ms name \<noteq> None" by blast
    with assms(2) show False by simp
  qed
  have "mk name = None"
  proof (rule ccontr)
    assume "mk name \<noteq> None"
    from dependency_loop_keys[OF dl this] b show False by simp
  qed
  with a show ?thesis by simp
qed

text \<open>Two layers of four weights each, used as a concrete allocator below.\<close>

definition wC :: wrapper where
  "wC = \<lparr>total_sparsity = 1 / 2, max_sparsity_per_layer = [],
          weight_mask = \<lparr>shape = [4], vals = [1, 1, 1, 1]\<rparr>, weight_size = [4],
          bias_mask = None\<rparr>"

definition aC :: allocator where
  "aC = \<lparr>dim_opt = None, block_sparse_size = None, continuous_mask = True,
          modules_wrapper = [(''conv1'', wC), (''conv2'', wC)]\<rparr>"

text \<open>
  Claim C7, as amended. When a layer of the model set has no entry in the metrics: the
  Normal and the Block allocator raise (the assertion of line 27 fails at that layer, unless
  an earlier layer has raised already) and the Global allocator raises KeyError at line 178,
  before any mask is computed; no masks are returned. The dependency-aware allocator does
  not raise for that reason: the guard \<^verbatim>\<open>if name in metrics\<close> of line 253 leaves the layer
  out, and a call that returns has no mask for it.
\<close>

theorem missing_metric_raises:
  assumes "ms name = None"
  shows "((name, w) \<in> set (modules_wrapper self) \<longrightarrow>
            isl (generate_sparsity A compress expand self ms))
       \<and> (names \<in> set module_groups \<and> name \<in> set names \<longrightarrow>
            Global_generate_sparsity A compress expand self module_groups ms = Inl KeyError)
       \<and> (Dependency_generate_sparsity A compress expand self channel_depen group_depen ms
            = Inr (ms', mk) \<longrightarrow> mk name = None \<and> ms' name = None)"
  using assms layer_loop_missing[of name w "modules_wrapper self" "(ms, Map.empty)"]
    lookup_groups_missing[of names module_groups name ms]
    dependency_skips_missing[of A compress expand self channel_depen group_depen ms ms' mk name]
  by (auto simp: generate_sparsity_def Global_generate_sparsity_def)

theorem missing_metric_raises_witness:
  "isl (generate_sparsity exact (Block_compress_mask aC) (Block_expand_mask aC) aC
          [''conv1'' \<mapsto> \<lparr>shape = [4], vals = [3, 1, 4, 2]\<rparr>])
   \<and> Global_generate_sparsity exact (Block_compress_mask aC) (Block_expand_mask aC) aC
        [[''conv1'', ''conv2'']] [''conv1'' \<mapsto> \<lparr>shape = [4], vals = [3, 1, 4, 2]\<rparr>]
      = Inl KeyError
   \<and> (case Dependency_generate_sparsity exact (Block_compress_mask aC) (Block_expand_mask aC) aC
              [[''conv1'', ''conv2'']] [(''conv1'', 1), (''conv2'', 1)]
              [''conv1'' \<mapsto> \<lparr>shape = [4], vals = [3, 1, 4, 2]\<rparr>] of
         Inl e \<Rightarrow> False
       | Inr r \<Rightarrow> snd r ''conv2'' = None \<and> fst r ''conv2'' = None)"
proof -
  let ?ms = "[''conv1'' \<mapsto> \<lparr>shape = [4], vals = [3, 1, 4, 2::real]\<rparr>]"
  let ?d = "Dependency_generate_sparsity exact (Block_compress_mask aC) (Block_expand_mask aC) aC
              [[''conv1'', ''conv2'']] [(''conv1'', 1), (''conv2'', 1)] ?ms"
  have none: "?ms ''conv2'' = None" by simp
  have mem: "(''conv2'', wC) \<in> set (modules_wrapper aC)" by (simp add: aC_def)
  have grp: "[''conv1'', ''conv2''] \<in> set [[''conv1'', ''conv2'']]
             \<and> ''conv2'' \<in> set [''conv1'', ''conv2'']" by simp
  have ret: "\<not> isl ?d"
    by (simp add: Dependency_generate_sparsity_def aC_def wC_def Block_compress_mask_def
        Block_expand_mask_def nonzero_def t_mul_def dependency_group_def
        group_metric_calculate_def shared_mask_def segment_mask_def segment_def
        member_mask_def mul_1d_def topk_smallest_def t_max_def to_int_def resize_def exact_def
        sort_key_def)
  then obtain r where r: "?d = Inr r" by (cases ?d) simp_all
  then have r': "?d = Inr (fst r, snd r)" by simp
  from missing_metric_raises [where A = exact and ms = ?ms and name = "''conv2''" and w = wC and self = aC
      and names = "[''conv1'', ''conv2'']" and module_groups = "[[''conv1'', ''conv2'']]"
      and compress = "Block_compress_mask aC" and expand = "Block_expand_mask aC"
      and channel_depen = "[[''conv1'', ''conv2'']]"
      and group_depen = "[(''conv1'', 1), (''conv2'', 1)]" and ms' = "fst r" and mk = "snd r",
      OF none]
    mem grp r'
  show ?thesis by (simp add: r)
qed

text \<open>
  The claim as stated fails on the dependency-aware allocator: the layer \<open>conv2\<close> of the
  dependency set has no metric, the call returns all the same, with a mask for \<open>conv1\<close>
  and none for \<open>conv2\<close>.
\<close>

theorem dependency_skips_layer_counterexample:
  "(case Dependency_generate_sparsity exact (Block_compress_mask aC) (Block_expand_mask aC) aC
       [[''conv1'', ''conv2'']] [(''conv1'', 1), (''conv2'', 1)]
       [''conv1'' \<mapsto> \<lparr>shape = [4], vals = [3, 1, 4, 2]\<rparr>] of
     Inl e \<Rightarrow> None
   | Inr (ms', mk) \<Rightarrow> Some (mk ''conv1'', mk ''conv2''))
   = Some (Some \<lparr>weight = \<lparr>shape = [4], vals = [1, 0, 1, 0]\<rparr>, bias = None\<rparr>, None)"
  by (simp add: Dependency_generate_sparsity_def aC_def wC_def Block_compress_mask_def
      Block_expand_mask_def nonzero_def t_mul_def dependency_group_def
      group_metric_calculate_def shared_mask_def segment_mask_def segment_def
      member_mask_def mul_1d_def topk_smallest_def t_max_def to_int_def resize_def exact_def
      sort_key_def)

section \<open>Continuous-mask mode\<close>















section \<open>The metrics dictionary after a call\<close>

text \<open>
  One layer of two weights whose first weight the previous round has pruned, under
  continuous-mask mode.
\<close>

definition wM :: wrapper where
  "wM = \<lparr>total_sparsity = 0, max_sparsity_per_layer = [],
          weight_mask = \<lparr>shape = [2], vals = [0, 1]\<rparr>, weight_size = [2],
          bias_mask = None\<rparr>"

definition aM :: allocator where
  "aM = \<lparr>dim_opt = None, block_sparse_size = None, continuous_mask = True,
          modules_wrapper = [(''L'', wM)]\<rparr>"

text \<open>
  With continuous-mask mode off, the Normal and the Block allocator leave the metrics as
  they were supplied.
\<close>

lemma generate_sparsity_unchanged_metrics:
  assumes "layer_loop A C E False ws st = Inr st'"
  shows "fst st' = fst st"
  using assms
proof (induction ws arbitrary: st)
  case Nil
  then show ?case by simp
next
  case (Cons a ws)
  obtain n w where a: "a = (n, w)" by (cases a)
  from Cons.prems obtain st2 where s: "layer_step A C E False n w st = Inr st2"
    and l: "layer_loop A C E False ws st2 = Inr st'"
    by (auto simp: a split: sum.splits)
  from s have "fst st2 = fst st"
    by (auto simp: layer_step_def continuous_metric_def fun_upd_idem split: option.splits sum.splits)
  with Cons.IH[OF l] show ?case by simp
qed

text \<open>
  Claim C10 says that a call leaves the supplied metrics and every tensor in them
  unchanged. Under continuous-mask mode the Normal, the Block and the dependency-aware
  allocator update the metric tensor in place (\<^verbatim>\<open>metric *= ...\<close>, lines 32, 60 and 256): here
  the supplied metric \<open>[5, 7]\<close> of layer \<open>L\<close> is \<open>[0, 7]\<close> after the call. The Global
  allocator builds a new tensor instead (\<^verbatim>\<open>metric = metric * ...\<close>, line 203).
\<close>

theorem generate_sparsity_mutates_metrics:
  "(case Block_generate_sparsity exact aM [''L'' \<mapsto> \<lparr>shape = [2], vals = [5, 7]\<rparr>] of
      Inl e \<Rightarrow> None
    | Inr (ms', mk) \<Rightarrow> Some (ms' ''L''))
   = Some (Some \<lparr>shape = [2], vals = [0, 7]\<rparr>)"
  by (simp add: eval_defs aM_def wM_def)

section \<open>The layer-local allocators\<close>


text \<open>
  What an iteration that returns has computed: the ranked metric, its threshold, the
  decision handed to \<^verbatim>\<open>_expand_mask\<close>, and the two dictionary entries of the layer.
\<close>

lemma layer_step_result:
  assumes "layer_step A C E cm name w st = Inr st2"
  shows "\<exists>metric ranked thr lm0.
           fst st name = Some metric
         \<and> continuous_metric C cm w metric = Inr ranked
         \<and> select_threshold A ranked
               (to_int (to_double A (total_sparsity w * real (numel ranked)))) = Inr thr
         \<and> E name (gt ranked thr) = Inr lm0
         \<and> fst st2 name = Some ranked
         \<and> (\<exists>lm. snd st2 name = Some lm \<and> bias lm = bias lm0
               \<and> (if cm then t_mul (weight lm0) (weight_mask w) = Inr (weight lm)
                   else weight lm = weight lm0))"
  using assms
  by (auto simp: layer_step_def split: option.splits sum.splits if_splits)

lemma layer_loop_result:
  assumes "layer_loop A C E cm ws st = Inr st'" "distinct (map fst ws)" "(name, w) \<in> set ws"
  shows "\<exists>metric ranked thr lm0.
           fst st name = Some metric
         \<and> continuous_metric C cm w metric = Inr ranked
         \<and> select_threshold A ranked
               (to_int (to_double A (total_sparsity w * real (numel ranked)))) = Inr thr
         \<and> E name (gt ranked thr) = Inr lm0
         \<and> fst st' name = Some ranked
         \<and> (\<exists>lm. snd st' name = Some lm \<and> bias lm = bias lm0
               \<and> (if cm then t_mul (weight lm0) (weight_mask w) = Inr (weight lm)
                   else weight lm = weight lm0))"
  using assms
proof (induction ws arbitrary: st)
  case Nil
  then show ?case by simp
next
  case (Cons a ws)
  obtain n w' where a: "a = (n, w')" by (cases a)
  from Cons.prems(1) obtain st2 where s: "layer_step A C E cm n w' st = Inr st2"
    and l: "layer_loop A C E cm ws st2 = Inr st'"
    by (auto simp: a split: sum.splits)
  show ?case
  proof (cases "(name, w) \<in> set ws")
    case True
    then have "name \<in> fst ` set ws" by force
    with Cons.prems(2) have "n \<noteq> name" by (auto simp: a)
    from layer_step_other[OF s this] Cons.IH[OF l _ True] Cons.prems(2) show ?thesis by simp
  next
    case False
    with Cons.prems(3) have eq: "n = name" "w' = w" by (auto simp: a)
    from Cons.prems(2) have "name \<notin> fst ` set ws" by (auto simp: a eq)
    from layer_loop_other[OF l this] layer_step_result[OF s[unfolded eq]] show ?thesis by simp
  qed
qed








section \<open>The thresholds of the Global allocator\<close>

text \<open>
  What one layer contributes in \<^verbatim>\<open>_calculate_threshold\<close>, read off \<open>threshold_step\<close>: the
  metric that is ranked (lines 202 to 203), the number of candidates
  (\<^verbatim>\<open>stay_metric_num\<close>), the candidates (line 217), the weight count (line 205), the factor
  \<^verbatim>\<open>expend_times\<close>, the entry appended to \<^verbatim>\<open>metric_list\<close> (lines 219 to 221) and the
  layer's threshold (lines 214 and 218). \<open>layer_wf\<close> holds of the layers on which the loop
  body does not raise: the layer has a wrapper, the ranked metric exists and is not empty,
  the weight mask is not empty, and \<^verbatim>\<open>torch.topk\<close> is not asked for more entries than
  there are.
\<close>

definition ranked_metric ::
  "(tensor \<Rightarrow> error + tensor) \<Rightarrow> allocator \<Rightarrow> string \<times> tensor \<Rightarrow> tensor" where
  "ranked_metric C self nm =
     (case map_of (modules_wrapper self) (fst nm) of
        None \<Rightarrow> snd nm
      | Some w \<Rightarrow>
         (case continuous_metric C (continuous_mask self) w (snd nm) of
            Inl e \<Rightarrow> snd nm
          | Inr r \<Rightarrow> r))"

definition layer_stay ::
  "rounding \<Rightarrow> (tensor \<Rightarrow> error + tensor) \<Rightarrow> allocator \<Rightarrow> (string \<times> real) list \<Rightarrow>
   string \<times> tensor \<Rightarrow> int" where
  "layer_stay A C self caps nm =
     (case map_of (modules_wrapper self) (fst nm) of
        None \<Rightarrow> 0
      | Some w \<Rightarrow> stay_metric_num A caps (fst nm) w (ranked_metric C self nm))"

definition layer_wf ::
  "rounding \<Rightarrow> (tensor \<Rightarrow> error + tensor) \<Rightarrow> allocator \<Rightarrow> (string \<times> real) list \<Rightarrow>
   string \<times> tensor \<Rightarrow> bool" where
  "layer_wf A C self caps nm =
     (case map_of (modules_wrapper self) (fst nm) of
        None \<Rightarrow> False
      | Some w \<Rightarrow>
         (case continuous_metric C (continuous_mask self) w (snd nm) of
            Inl e \<Rightarrow> False
          | Inr r \<Rightarrow> numel r \<noteq> 0 \<and> numel (weight_mask w) \<noteq> 0
                     \<and> stay_metric_num A caps (fst nm) w r \<le> int (numel r)))"

definition layer_candidates ::
  "rounding \<Rightarrow> (tensor \<Rightarrow> error + tensor) \<Rightarrow> allocator \<Rightarrow> (string \<times> real) list \<Rightarrow>
   string \<times> tensor \<Rightarrow> real list" where
  "layer_candidates A C self caps nm =
     take (nat (layer_stay A C self caps nm)) (sort (vals (ranked_metric C self nm)))"

definition layer_weight_num :: "allocator \<Rightarrow> string \<times> tensor \<Rightarrow> nat" where
  "layer_weight_num self nm =
     (case map_of (modules_wrapper self) (fst nm) of
        None \<Rightarrow> 0
      | Some w \<Rightarrow> prod_list (weight_size w))"

definition layer_expend ::
  "rounding \<Rightarrow> (tensor \<Rightarrow> error + tensor) \<Rightarrow> allocator \<Rightarrow> string \<times> tensor \<Rightarrow> int" where
  "layer_expend A C self nm =
     (case map_of (modules_wrapper self) (fst nm) of
        None \<Rightarrow> 0
      | Some w \<Rightarrow> expend_times A w (ranked_metric C self nm))"

definition pool_entry ::
  "rounding \<Rightarrow> (tensor \<Rightarrow> error + tensor) \<Rightarrow> allocator \<Rightarrow> (string \<times> real) list \<Rightarrow>
   string \<times> tensor \<Rightarrow> real list" where
  "pool_entry A C self caps nm =
     (if 1 < layer_expend A C self nm
      then concat (replicate (nat (layer_expend A C self nm)) (layer_candidates A C self caps nm))
      else layer_candidates A C self caps nm)"

definition layer_sub ::
  "rounding \<Rightarrow> (tensor \<Rightarrow> error + tensor) \<Rightarrow> allocator \<Rightarrow> (string \<times> real) list \<Rightarrow>
   string \<times> tensor \<Rightarrow> scalar" where
  "layer_sub A C self caps nm =
     (if layer_stay A C self caps nm \<le> 0
      then PyFloat (to_double A (Min (set (vals (ranked_metric C self nm))) - 1))
      else Tensor0 (Max (set (layer_candidates A C self caps nm))))"

text \<open>The loop body returns exactly on these layers, with this result.\<close>

lemma sort_eq_Nil: "(sort xs = []) = (xs = ([]::real list))"
  by (metis length_0_conv length_sort)

lemma layer_wf_cases:
  assumes "layer_wf A C self caps (name, metric)"
  obtains w where "map_of (modules_wrapper self) name = Some w"
    "continuous_metric C (continuous_mask self) w metric = Inr (ranked_metric C self (name, metric))"
    "numel (ranked_metric C self (name, metric)) \<noteq> 0" "numel (weight_mask w) \<noteq> 0"
    "layer_stay A C self caps (name, metric) \<le> int (numel (ranked_metric C self (name, metric)))"
    "layer_stay A C self caps (name, metric)
       = stay_metric_num A caps name w (ranked_metric C self (name, metric))"
    "layer_weight_num self (name, metric) = prod_list (weight_size w)"
    "layer_expend A C self (name, metric) = expend_times A w (ranked_metric C self (name, metric))"
  using assms
  by (auto simp: layer_wf_def ranked_metric_def layer_stay_def layer_weight_num_def
      layer_expend_def split: option.splits sum.splits)

lemma threshold_step_wf:
  assumes "layer_wf A C self caps (name, metric)"
  shows "threshold_step A C self caps name metric st =
           Inr (fst st @ (if layer_stay A C self caps (name, metric) \<le> 0 then []
                          else [pool_entry A C self caps (name, metric)]),
                (fst (snd st))(name \<mapsto> layer_sub A C self caps (name, metric)),
                snd (snd st) + layer_weight_num self (name, metric))"
proof -
  let ?r = "ranked_metric C self (name, metric)"
  from assms obtain w where w: "map_of (modules_wrapper self) name = Some w"
    and r: "continuous_metric C (continuous_mask self) w metric = Inr ?r"
    and ne: "numel ?r \<noteq> 0" "numel (weight_mask w) \<noteq> 0"
    and le: "layer_stay A C self caps (name, metric) \<le> int (numel ?r)"
    and ls: "layer_stay A C self caps (name, metric) = stay_metric_num A caps name w ?r"
    and lw: "layer_weight_num self (name, metric) = prod_list (weight_size w)"
    and lx: "layer_expend A C self (name, metric) = expend_times A w ?r"
    by (rule layer_wf_cases)
  let ?k = "stay_metric_num A caps name w ?r"
  show ?thesis
  proof (cases "?k \<le> 0")
    case True
    from ne have "vals ?r \<noteq> []" by (simp add: numel_def)
    with True w r ne show ?thesis
      by (simp add: threshold_step_def ls lw layer_sub_def t_min_def)
  next
    case False
    with le ls have k: "0 < ?k" "?k \<le> int (length (vals ?r))" by (simp_all add: numel_def)
    then have "length (take (nat ?k) (sort (vals ?r))) = nat ?k" by simp
    with k have "take (nat ?k) (sort (vals ?r)) \<noteq> []"
      by (metis length_0_conv nat_0_iff not_le)
    with False w r ne k show ?thesis
      by (simp add: threshold_step_def ls lw lx layer_sub_def topk_smallest_def t_max_def
          pool_entry_def layer_candidates_def)
  qed
qed

lemma threshold_step_returns:
  assumes "threshold_step A C self caps name metric st = Inr st2"
  shows "layer_wf A C self caps (name, metric)"
  using assms
  by (auto simp: threshold_step_def layer_wf_def topk_smallest_def numel_def
      split: option.splits sum.splits if_splits)

lemma pool_entry_empty:
  assumes "layer_stay A C self caps nm \<le> 0"
  shows "pool_entry A C self caps nm = []"
  using assms by (simp add: pool_entry_def layer_candidates_def)

lemma pool_entry_nonempty:
  assumes "layer_wf A C self caps nm" "0 < layer_stay A C self caps nm"
  shows "pool_entry A C self caps nm \<noteq> []"
proof -
  obtain name metric where nm: "nm = (name, metric)" by (cases nm)
  from assms(1)[unfolded nm] obtain w where
    ne: "numel (ranked_metric C self (name, metric)) \<noteq> 0" by (rule layer_wf_cases)
  with assms(2) have c: "layer_candidates A C self caps nm \<noteq> []"
    by (simp add: layer_candidates_def nm numel_def sort_eq_Nil)
  show ?thesis
  proof (cases "1 < layer_expend A C self nm")
    case True
    then obtain n where "nat (layer_expend A C self nm) = Suc n"
      by (cases "nat (layer_expend A C self nm)") auto
    with c True show ?thesis by (simp add: pool_entry_def)
  next
    case False
    with c show ?thesis by (simp add: pool_entry_def)
  qed
qed

lemma threshold_loop_wf:
  assumes "\<forall>nm\<in>set g. layer_wf A C self caps nm" "distinct (map fst g)"
  shows "\<exists>subs. threshold_loop A C self caps g st =
            Inr (fst st @ map (pool_entry A C self caps)
                            (filter (\<lambda>nm. 0 < layer_stay A C self caps nm) g),
                 subs, snd (snd st) + sum_list (map (layer_weight_num self) g))
          \<and> (\<forall>nm\<in>set g. subs (fst nm) = Some (layer_sub A C self caps nm))
          \<and> (\<forall>n. n \<notin> fst ` set g \<longrightarrow> subs n = fst (snd st) n)"
  using assms
proof (induction g arbitrary: st)
  case Nil
  show ?case by (intro exI[of _ "fst (snd st)"]) simp
next
  case (Cons a g)
  obtain n m where a: "a = (n, m)" by (cases a)
  from Cons.prems have wf: "layer_wf A C self caps (n, m)"
    and wfs: "\<forall>nm\<in>set g. layer_wf A C self caps nm"
    and d: "distinct (map fst g)" and nin: "n \<notin> fst ` set g"
    by (auto simp: a)
  let ?st2 = "(fst st @ (if layer_stay A C self caps (n, m) \<le> 0 then []
                          else [pool_entry A C self caps (n, m)]),
                (fst (snd st))(n \<mapsto> layer_sub A C self caps (n, m)),
                snd (snd st) + layer_weight_num self (n, m))"
  from Cons.IH[OF wfs d, of ?st2] obtain subs where
    l: "threshold_loop A C self caps g ?st2 =
            Inr (fst ?st2 @ map (pool_entry A C self caps)
                            (filter (\<lambda>nm. 0 < layer_stay A C self caps nm) g),
                 subs, snd (snd ?st2) + sum_list (map (layer_weight_num self) g))"
    and s: "\<forall>nm\<in>set g. subs (fst nm) = Some (layer_sub A C self caps nm)"
    and o: "\<forall>x. x \<notin> fst ` set g \<longrightarrow> subs x = fst (snd ?st2) x"
    by blast
  have 1: "threshold_loop A C self caps (a # g) st =
            Inr (fst st @ map (pool_entry A C self caps)
                            (filter (\<lambda>nm. 0 < layer_stay A C self caps nm) (a # g)),
                 subs, snd (snd st) + sum_list (map (layer_weight_num self) (a # g)))"
    using l by (simp add: a threshold_step_wf[OF wf] not_le)
  have 2: "\<forall>nm\<in>set (a # g). subs (fst nm) = Some (layer_sub A C self caps nm)"
    using s o nin by (auto simp: a)
  have 3: "\<forall>x. x \<notin> fst ` set (a # g) \<longrightarrow> subs x = fst (snd st) x"
    using o by (auto simp: a)
  from 1 2 3 show ?case by blast
qed

lemma threshold_loop_returns:
  assumes "threshold_loop A C self caps g st = Inr st'"
  shows "\<forall>nm\<in>set g. layer_wf A C self caps nm"
  using assms
proof (induction g arbitrary: st)
  case Nil
  then show ?case by simp
next
  case (Cons a g)
  obtain n m where a: "a = (n, m)" by (cases a)
  from Cons.prems obtain st2 where s: "threshold_step A C self caps n m st = Inr st2"
    and l: "threshold_loop A C self caps g st2 = Inr st'"
    by (auto simp: a split: sum.splits)
  from threshold_step_returns[OF s] Cons.IH[OF l] show ?case by (simp add: a)
qed

text \<open>
  The same for a whole group: the dictionary \<^verbatim>\<open>max_sparsity_per_layer\<close> and the
  \<^verbatim>\<open>total_sparsity\<close> of the first layer's configuration (lines 194 to 196),
  \<^verbatim>\<open>total_weight_num\<close>, \<^verbatim>\<open>total_prune_num\<close> (line 223) and the concatenated pool.
\<close>

definition group_caps :: "allocator \<Rightarrow> (string \<times> tensor) list \<Rightarrow> (string \<times> real) list" where
  "group_caps self g =
     (case g of
        [] \<Rightarrow> []
      | first # _ \<Rightarrow>
         (case map_of (modules_wrapper self) (fst first) of
            None \<Rightarrow> []
          | Some temp_wrapper \<Rightarrow> max_sparsity_per_layer temp_wrapper))"

definition group_sparsity :: "allocator \<Rightarrow> (string \<times> tensor) list \<Rightarrow> real" where
  "group_sparsity self g =
     (case g of
        [] \<Rightarrow> 0
      | first # _ \<Rightarrow>
         (case map_of (modules_wrapper self) (fst first) of
            None \<Rightarrow> 0
          | Some temp_wrapper \<Rightarrow> total_sparsity temp_wrapper))"

definition total_weight_num :: "allocator \<Rightarrow> (string \<times> tensor) list \<Rightarrow> nat" where
  "total_weight_num self g = sum_list (map (layer_weight_num self) g)"

definition total_prune_num :: "rounding \<Rightarrow> allocator \<Rightarrow> (string \<times> tensor) list \<Rightarrow> int" where
  "total_prune_num A self g =
     to_int (to_double A (group_sparsity self g * real (total_weight_num self g)))"

definition group_pool ::
  "rounding \<Rightarrow> (tensor \<Rightarrow> error + tensor) \<Rightarrow> allocator \<Rightarrow> (string \<times> tensor) list \<Rightarrow> real list" where
  "group_pool A C self g = concat (map (pool_entry A C self (group_caps self g)) g)"

lemma concat_pool_filter:
  "concat (map (pool_entry A C self caps) (filter (\<lambda>nm. 0 < layer_stay A C self caps nm) g))
   = concat (map (pool_entry A C self caps) g)"
  by (induction g) (simp_all add: pool_entry_empty)

lemma pool_list_empty:
  assumes "\<forall>nm\<in>set g. layer_wf A C self caps nm"
  shows "(map (pool_entry A C self caps) (filter (\<lambda>nm. 0 < layer_stay A C self caps nm) g) = [])
         = (concat (map (pool_entry A C self caps) g) = [])"
  using assms
proof (induction g)
  case Nil
  then show ?case by simp
next
  case (Cons a g)
  then show ?case
    using pool_entry_nonempty[of A C self caps a] pool_entry_empty[of A C self caps a]
    by (cases "0 < layer_stay A C self caps a") (simp_all add: not_less)
qed

text \<open>
  \<^verbatim>\<open>_calculate_threshold\<close> on a group of such layers: \<^verbatim>\<open>torch.cat\<close> raises when no layer
  has a candidate, \<^verbatim>\<open>torch.topk\<close> raises when the budget is negative or exceeds the pool,
  and otherwise the threshold is the sentinel or the largest of the smallest entries of the
  pool.
\<close>

lemma calculate_threshold_wf:
  assumes ne: "g \<noteq> []" and wf: "\<forall>nm\<in>set g. layer_wf A C self (group_caps self g) nm"
    and d: "distinct (map fst g)"
  shows "\<exists>subs. (\<forall>nm\<in>set g. subs (fst nm) = Some (layer_sub A C self (group_caps self g) nm))
          \<and> calculate_threshold A C self g =
             (if group_pool A C self g = [] then Inl RuntimeError
              else if total_prune_num A self g = 0
              then Inr (to_double A (Min (set (group_pool A C self g)) - 1), subs)
              else if total_prune_num A self g < 0
                      \<or> int (length (group_pool A C self g)) < total_prune_num A self g
              then Inl RuntimeError
              else Inr (Max (set (take (nat (total_prune_num A self g))
                                    (sort (group_pool A C self g)))), subs))"
proof -
  from ne obtain first rest where g: "g = first # rest" by (cases g) auto
  from wf g have "layer_wf A C self (group_caps self g) first" by simp
  then obtain tw where tw: "map_of (modules_wrapper self) (fst first) = Some tw"
    by (auto simp: layer_wf_def split: option.splits)
  have caps: "group_caps self g = max_sparsity_per_layer tw" by (simp add: group_caps_def g tw)
  have ts: "group_sparsity self g = total_sparsity tw" by (simp add: group_sparsity_def g tw)
  let ?caps = "max_sparsity_per_layer tw"
  let ?pl = "map (pool_entry A C self ?caps) (filter (\<lambda>nm. 0 < layer_stay A C self ?caps nm) g)"
  from threshold_loop_wf[OF wf[unfolded caps] d, of "([], Map.empty, 0)"]
  obtain subs where
    l: "threshold_loop A C self ?caps g ([], Map.empty, 0)
          = Inr (?pl, subs, sum_list (map (layer_weight_num self) g))"
    and s: "\<forall>nm\<in>set g. subs (fst nm) = Some (layer_sub A C self ?caps nm)"
    by auto
  have pool: "concat ?pl = group_pool A C self g"
    by (simp add: group_pool_def caps concat_pool_filter)
  have em: "(?pl = []) = (group_pool A C self g = [])"
    using pool_list_empty[OF wf[unfolded caps]] by (simp add: group_pool_def caps)
  have tp: "to_int (to_double A (total_sparsity tw * real (sum_list (map (layer_weight_num self) g))))
            = total_prune_num A self g"
    by (simp add: total_prune_num_def total_weight_num_def ts)
  have c: "calculate_threshold A C self g =
             (case group_threshold A ?pl (total_prune_num A self g) of
                Inl e \<Rightarrow> Inl e
              | Inr thr \<Rightarrow> Inr (thr, subs))"
  proof -
    have "calculate_threshold A C self g =
            (case threshold_loop A C self ?caps g ([], Map.empty, 0) of
               Inl e \<Rightarrow> Inl e
             | Inr st \<Rightarrow>
                (case group_threshold A (fst st)
                        (to_int (to_double A (total_sparsity tw * real (snd (snd st))))) of
                   Inl e \<Rightarrow> Inl e
                 | Inr threshold \<Rightarrow> Inr (threshold, fst (snd st))))"
      by (simp add: calculate_threshold_def g tw del: threshold_loop.simps)
    then show ?thesis by (simp add: l tp split: sum.splits)
  qed
  have "calculate_threshold A C self g =
             (if group_pool A C self g = [] then Inl RuntimeError
              else if total_prune_num A self g = 0
              then Inr (to_double A (Min (set (group_pool A C self g)) - 1), subs)
              else if total_prune_num A self g < 0
                      \<or> int (length (group_pool A C self g)) < total_prune_num A self g
              then Inl RuntimeError
              else Inr (Max (set (take (nat (total_prune_num A self g))
                                    (sort (group_pool A C self g)))), subs))"
  proof (cases "group_pool A C self g = []")
    case True
    with em c show ?thesis by (simp add: group_threshold_def)
  next
    case False
    with em have pne: "?pl \<noteq> []" by simp
    show ?thesis
    proof (cases "total_prune_num A self g = 0")
      case True
      with False pne c show ?thesis by (simp add: group_threshold_def pool t_min_def)
    next
      case nz: False
      show ?thesis
      proof (cases "total_prune_num A self g < 0
                      \<or> int (length (group_pool A C self g)) < total_prune_num A self g")
        case True
        with False nz pne c show ?thesis
          by (auto simp: group_threshold_def pool topk_smallest_def)
      next
        case ok: False
        with nz have k: "0 < nat (total_prune_num A self g)"
          "nat (total_prune_num A self g) \<le> length (sort (group_pool A C self g))" by auto
        then have "length (take (nat (total_prune_num A self g)) (sort (group_pool A C self g)))
                   = nat (total_prune_num A self g)" by simp
        with k have "take (nat (total_prune_num A self g)) (sort (group_pool A C self g)) \<noteq> []"
          by (metis length_0_conv less_numeral_extra(3))
        with False nz pne c ok show ?thesis
          by (simp add: group_threshold_def pool topk_smallest_def t_max_def)
      qed
    qed
  qed
  with s caps show ?thesis by auto
qed

lemma calculate_threshold_returns:
  assumes "calculate_threshold A C self g = Inr r"
  shows "g \<noteq> [] \<and> (\<forall>nm\<in>set g. layer_wf A C self (group_caps self g) nm)"
proof -
  from assms obtain first rest where g: "g = first # rest"
    by (cases g) (auto simp: calculate_threshold_def)
  from assms g obtain tw where tw: "map_of (modules_wrapper self) (fst first) = Some tw"
    by (auto simp: calculate_threshold_def split: option.splits)
  have caps: "group_caps self g = max_sparsity_per_layer tw" by (simp add: group_caps_def g tw)
  from assms g tw obtain st where
    "threshold_loop A C self (max_sparsity_per_layer tw) g ([], Map.empty, 0) = Inr st"
    by (auto simp: calculate_threshold_def split: sum.splits)
  from threshold_loop_returns[OF this]
  have "\<forall>nm\<in>set g. layer_wf A C self (group_caps self g) nm" by (simp only: caps)
  with g show ?thesis by simp
qed

lemma calculate_threshold_value:
  assumes c: "calculate_threshold A C self g = Inr (thr, subs)" and d: "distinct (map fst g)"
  shows "g \<noteq> [] \<and> (\<forall>nm\<in>set g. layer_wf A C self (group_caps self g) nm)
       \<and> group_pool A C self g \<noteq> []
       \<and> (if total_prune_num A self g = 0
          then thr = to_double A (Min (set (group_pool A C self g)) - 1)
          else 0 < total_prune_num A self g
             \<and> total_prune_num A self g \<le> int (length (group_pool A C self g))
             \<and> thr = Max (set (take (nat (total_prune_num A self g))
                                 (sort (group_pool A C self g)))))
       \<and> (\<forall>nm\<in>set g. subs (fst nm) = Some (layer_sub A C self (group_caps self g) nm))"
proof -
  from calculate_threshold_returns[OF c]
  have ne: "g \<noteq> []" and wf: "\<forall>nm\<in>set g. layer_wf A C self (group_caps self g) nm"
    by simp_all
  from calculate_threshold_wf[OF ne wf d] c ne wf show ?thesis
    by (auto split: if_splits)
qed

text \<open>Bounds on the threshold of a layer, for a monotone conversion to the element type.\<close>

lemma effective_threshold_le:
  assumes "mono (to_dtype A)"
  shows "effective_threshold A thr sub \<le> to_dtype A thr"
  using assms by (cases sub) (auto simp: effective_threshold_def mono_def)

lemma effective_threshold_PyFloat:
  assumes "mono (to_dtype A)"
  shows "effective_threshold A thr (PyFloat s) \<le> to_dtype A s"
  using assms by (auto simp: effective_threshold_def mono_def)

lemma effective_threshold_Tensor0: "effective_threshold A thr (Tensor0 u) \<le> u"
  by (auto simp: effective_threshold_def)

lemma gt_all_ones:
  assumes "\<forall>x\<in>set (vals metric). thr < x"
  shows "vals (gt metric thr) = replicate (length (vals metric)) 1"
  using assms by (simp add: gt_def map_replicate_const[symmetric] cong: map_cong)

lemma gt_ones:
  assumes "\<forall>x\<in>set (vals metric). thr < x"
  shows "gt metric thr = metric\<lparr>vals := replicate (numel metric) 1\<rparr>"
  using gt_all_ones[OF assms] by (simp add: gt_def numel_def)

lemma pruned_count_ones: "pruned_count (metric\<lparr>vals := replicate n 1\<rparr>) = 0"
  by (simp add: pruned_count_def)

text \<open>
  What a call of \<^verbatim>\<open>GlobalSparsityAllocator.generate_sparsity\<close> that returns has computed
  for a layer of one of its groups, when no layer is in two groups.
\<close>

lemma global_masks_other:
  assumes "global_masks A E self thr subs g mk = Inr mk'" "name \<notin> fst ` set g"
  shows "mk' name = mk name"
  using assms
proof (induction g arbitrary: mk)
  case Nil
  then show ?case by simp
next
  case (Cons a g)
  obtain n m where a: "a = (n, m)" by (cases a)
  from Cons.prems(2) have nn: "n \<noteq> name" "name \<notin> fst ` set g" by (auto simp: a)
  from Cons.prems(1) obtain lm where "global_masks A E self thr subs g (mk(n \<mapsto> lm)) = Inr mk'"
    by (auto simp: a split: option.splits sum.splits if_splits)
  from Cons.IH[OF this nn(2)] nn(1) show ?case by simp
qed

lemma global_masks_result:
  assumes "global_masks A E self thr subs g mk = Inr mk'" "distinct (map fst g)"
    "(name, metric) \<in> set g"
  shows "\<exists>dec lm0 lm. global_decision A thr subs name metric = Inr dec
           \<and> E name dec = Inr lm0 \<and> mk' name = Some lm \<and> bias lm = bias lm0
           \<and> (if continuous_mask self
               then (\<exists>w. map_of (modules_wrapper self) name = Some w
                         \<and> t_mul (weight lm0) (weight_mask w) = Inr (weight lm))
               else weight lm = weight lm0)"
  using assms
proof (induction g arbitrary: mk)
  case Nil
  then show ?case by simp
next
  case (Cons a g)
  obtain n m where a: "a = (n, m)" by (cases a)
  from Cons.prems(2) have d: "distinct (map fst g)" and nin: "n \<notin> fst ` set g"
    by (auto simp: a)
  show ?case
  proof (cases "(name, metric) \<in> set g")
    case True
    from Cons.prems(1) obtain lm where
      "global_masks A E self thr subs g (mk(n \<mapsto> lm)) = Inr mk'"
      by (auto simp: a split: option.splits sum.splits if_splits)
    from Cons.IH[OF this d True] show ?thesis .
  next
    case False
    with Cons.prems(3) have eq: "n = name" "m = metric" by (auto simp: a)
    from nin have nin': "name \<notin> fst ` set g" by (simp add: eq)
    from Cons.prems(1) obtain dec lm0 where
      dec: "global_decision A thr subs name metric = Inr dec"
      and e: "E name dec = Inr lm0"
      and r: "(if continuous_mask self
               then (case map_of (modules_wrapper self) name of
                       None \<Rightarrow> Inl KeyError
                     | Some w \<Rightarrow>
                        (case t_mul (weight lm0) (weight_mask w) of
                           Inl e \<Rightarrow> Inl e
                         | Inr wm \<Rightarrow>
                            global_masks A E self thr subs g (mk(name \<mapsto> lm0\<lparr>weight := wm\<rparr>))))
               else global_masks A E self thr subs g (mk(name \<mapsto> lm0))) = Inr mk'"
      by (auto simp: a eq split: sum.splits)
    show ?thesis
    proof (cases "continuous_mask self")
      case True
      with r obtain w wm where w: "map_of (modules_wrapper self) name = Some w"
        and t: "t_mul (weight lm0) (weight_mask w) = Inr wm"
        and l: "global_masks A E self thr subs g (mk(name \<mapsto> lm0\<lparr>weight := wm\<rparr>)) = Inr mk'"
        by (auto split: option.splits sum.splits)
      from global_masks_other[OF l nin'] have "mk' name = Some (lm0\<lparr>weight := wm\<rparr>)" by simp
      with dec e w t True show ?thesis by auto
    next
      case False
      with r have l: "global_masks A E self thr subs g (mk(name \<mapsto> lm0)) = Inr mk'" by simp
      from global_masks_other[OF l nin'] have "mk' name = Some lm0" by simp
      with dec e False show ?thesis by auto
    qed
  qed
qed

lemma global_loop_other:
  assumes "global_loop A C E self gs mk = Inr mk'" "name \<notin> fst ` set (concat gs)"
  shows "mk' name = mk name"
  using assms
proof (induction gs arbitrary: mk)
  case Nil
  then show ?case by simp
next
  case (Cons g gs)
  from Cons.prems(1) obtain thr subs mk1 where
    gm: "global_masks A E self thr subs g mk = Inr mk1"
    and l: "global_loop A C E self gs mk1 = Inr mk'"
    by (auto split: sum.splits prod.splits)
  from Cons.prems(2) have "name \<notin> fst ` set g" "name \<notin> fst ` set (concat gs)" by auto
  with Cons.IH[OF l] global_masks_other[OF gm] show ?case by simp
qed

lemma global_loop_result:
  assumes "global_loop A C E self gs mk = Inr mk'" "distinct (map fst (concat gs))"
    "g \<in> set gs" "(name, metric) \<in> set g"
  shows "\<exists>thr subs dec lm0 lm. calculate_threshold A C self g = Inr (thr, subs)
           \<and> global_decision A thr subs name metric = Inr dec
           \<and> E name dec = Inr lm0 \<and> mk' name = Some lm \<and> bias lm = bias lm0
           \<and> (if continuous_mask self
               then (\<exists>w. map_of (modules_wrapper self) name = Some w
                         \<and> t_mul (weight lm0) (weight_mask w) = Inr (weight lm))
               else weight lm = weight lm0)"
  using assms
proof (induction gs arbitrary: mk)
  case Nil
  then show ?case by simp
next
  case (Cons h gs)
  from Cons.prems(1) obtain thr subs mk1 where
    c: "calculate_threshold A C self h = Inr (thr, subs)"
    and gm: "global_masks A E self thr subs h mk = Inr mk1"
    and l: "global_loop A C E self gs mk1 = Inr mk'"
    by (auto split: sum.splits prod.splits)
  from Cons.prems(2) have dh: "distinct (map fst h)" and dg: "distinct (map fst (concat gs))"
    and disj: "fst ` set h \<inter> fst ` set (concat gs) = {}"
    by auto
  show ?case
  proof (cases "g \<in> set gs")
    case True
    from Cons.IH[OF l dg True Cons.prems(4)] show ?thesis .
  next
    case False
    with Cons.prems(3) have eq: "g = h" by simp
    from Cons.prems(4) have "name \<in> fst ` set h" unfolding eq by force
    with disj have "name \<notin> fst ` set (concat gs)" by blast
    from global_loop_other[OF l this] global_masks_result[OF gm dh Cons.prems(4)[unfolded eq]] c
    show ?thesis unfolding eq by auto
  qed
qed

lemma lookup_all_mem:
  assumes "lookup_all ms names = Inr g" "name \<in> set names"
  shows "\<exists>metric. ms name = Some metric \<and> (name, metric) \<in> set g"
  using assms
  by (induction names arbitrary: g) (auto split: option.splits sum.splits)

lemma lookup_groups_mem:
  assumes "lookup_groups ms groups = Inr gs" "names \<in> set groups"
  shows "\<exists>g\<in>set gs. lookup_all ms names = Inr g"
  using assms
  by (induction groups arbitrary: gs) (auto split: option.splits sum.splits)

lemma lookup_groups_names:
  assumes "lookup_groups ms groups = Inr gs"
  shows "map fst (concat gs) = concat groups"
  using assms
  by (induction groups arbitrary: gs) (auto split: option.splits sum.splits dest: lookup_all_names)

lemma Global_generate_sparsity_result:
  assumes ret: "Global_generate_sparsity A C E self module_groups ms = Inr mk"
    and d: "distinct (concat module_groups)"
    and n: "names \<in> set module_groups" "name \<in> set names"
  shows "\<exists>g metric thr subs dec lm0 lm.
           lookup_all ms names = Inr g \<and> ms name = Some metric \<and> (name, metric) \<in> set g
         \<and> distinct (map fst g)
         \<and> calculate_threshold A C self g = Inr (thr, subs)
         \<and> global_decision A thr subs name metric = Inr dec
         \<and> E name dec = Inr lm0 \<and> mk name = Some lm \<and> bias lm = bias lm0
         \<and> (if continuous_mask self
             then (\<exists>w. map_of (modules_wrapper self) name = Some w
                       \<and> t_mul (weight lm0) (weight_mask w) = Inr (weight lm))
             else weight lm = weight lm0)"
proof -
  from ret obtain gs where lg: "lookup_groups ms module_groups = Inr gs"
    and gl: "global_loop A C E self gs Map.empty = Inr mk"
    by (auto simp: Global_generate_sparsity_def split: sum.splits)
  from lookup_groups_mem[OF lg n(1)] obtain g where g: "g \<in> set gs"
    and la: "lookup_all ms names = Inr g" by blast
  from lookup_all_mem[OF la n(2)] obtain metric where m: "ms name = Some metric"
    "(name, metric) \<in> set g" by blast
  from lookup_groups_names[OF lg] d have dd: "distinct (map fst (concat gs))" by simp
  from d n(1) have "distinct names" by (metis distinct_concat_iff)
  with lookup_all_names[OF la] have dg: "distinct (map fst g)" by simp
  from global_loop_result[OF gl dd g m(2)] la m dg show ?thesis by blast
qed

lemma eq_key_value:
  assumes "distinct (map fst g)" "(k, v1) \<in> set g" "(k, v2) \<in> set g"
  shows "v1 = v2"
  using assms by (meson eq_key_imp_eq_value)

text \<open>
  With a budget of 0 the threshold of the group is the sentinel; it is below the least ranked
  value of every layer that has a candidate, and the threshold of a layer without one is
  the layer's own sentinel.
\<close>

lemma Min_in_take_sort:
  assumes "xs \<noteq> []" "0 < k"
  shows "Min (set xs) \<in> set (take k (sort (xs::real list)))"
proof -
  have ne: "sort xs \<noteq> []" using assms by (simp add: sort_eq_Nil)
  then obtain y ys where ys: "sort xs = y # ys" by (cases "sort xs") auto
  have "sorted (sort xs)" by simp
  then have "sorted (y # ys)" by (simp add: ys)
  then have "\<forall>z\<in>set (y # ys). y \<le> z" by auto
  then have "Min (set (y # ys)) = y" by (intro Min_eqI) auto
  moreover have "set (sort xs) = set xs" by simp
  then have "set (y # ys) = set xs" by (simp add: ys)
  ultimately have "Min (set xs) = y" by simp
  moreover from assms(2) obtain k' where "k = Suc k'" by (cases k) auto
  ultimately show ?thesis by (simp add: ys)
qed

lemma set_pool_entry:
  "set (pool_entry A C self caps nm) = set (layer_candidates A C self caps nm)"
  by (auto simp: pool_entry_def)

lemma pool_entry_in_pool:
  assumes "nm \<in> set g"
  shows "set (layer_candidates A C self (group_caps self g) nm) \<subseteq> set (group_pool A C self g)"
  using assms by (auto simp: group_pool_def set_pool_entry)

lemma group_pool_empty_iff:
  assumes "\<forall>nm\<in>set g. layer_wf A C self (group_caps self g) nm"
  shows "(group_pool A C self g = [])
         = (\<forall>nm\<in>set g. layer_stay A C self (group_caps self g) nm \<le> 0)"
proof
  assume e: "group_pool A C self g = []"
  show "\<forall>nm\<in>set g. layer_stay A C self (group_caps self g) nm \<le> 0"
  proof
    fix nm assume nm: "nm \<in> set g"
    with e have "pool_entry A C self (group_caps self g) nm = []"
      by (simp add: group_pool_def)
    with pool_entry_nonempty[of A C self "group_caps self g" nm] assms nm
    show "layer_stay A C self (group_caps self g) nm \<le> 0" by force
  qed
next
  assume "\<forall>nm\<in>set g. layer_stay A C self (group_caps self g) nm \<le> 0"
  then show "group_pool A C self g = []"
    by (simp add: group_pool_def pool_entry_empty)
qed

lemma zero_budget_decision:
  assumes wf: "layer_wf A C self (group_caps self g) nm" and m: "nm \<in> set g"
    and sb: "subs (fst nm) = Some (layer_sub A C self (group_caps self g) nm)"
    and thr: "thr = to_double A (Min (set (group_pool A C self g)) - 1)"
    and md: "mono (to_double A)" and mt: "mono (to_dtype A)"
    and strict: "to_dtype A (to_double A (Min (set (vals (ranked_metric C self nm))) - 1))
                   < Min (set (vals (ranked_metric C self nm)))"
    and below: "\<forall>x\<in>set (vals (snd nm)). Min (set (vals (ranked_metric C self nm))) \<le> x"
  shows "global_decision A thr subs (fst nm) (snd nm)
           = Inr ((snd nm)\<lparr>vals := replicate (numel (snd nm)) 1\<rparr>)"
proof -
  let ?caps = "group_caps self g"
  let ?r = "ranked_metric C self nm"
  let ?s = "to_dtype A (to_double A (Min (set (vals ?r)) - 1))"
  obtain name metric where nm: "nm = (name, metric)" by (cases nm)
  from wf[unfolded nm] obtain w where "numel (ranked_metric C self (name, metric)) \<noteq> 0"
    by (rule layer_wf_cases)
  then have ne: "vals ?r \<noteq> []" by (simp add: nm numel_def)
  have le: "effective_threshold A thr (layer_sub A C self ?caps nm) \<le> ?s"
  proof (cases "layer_stay A C self ?caps nm \<le> 0")
    case True
    then have "layer_sub A C self ?caps nm = PyFloat (to_double A (Min (set (vals ?r)) - 1))"
      by (simp add: layer_sub_def)
    with effective_threshold_PyFloat[OF mt] show ?thesis by simp
  next
    case False
    then have "0 < nat (layer_stay A C self ?caps nm)" by simp
    from Min_in_take_sort[OF ne this]
    have "Min (set (vals ?r)) \<in> set (layer_candidates A C self ?caps nm)"
      by (simp add: layer_candidates_def)
    with pool_entry_in_pool[OF m] have "Min (set (vals ?r)) \<in> set (group_pool A C self g)"
      by blast
    then have "Min (set (group_pool A C self g)) \<le> Min (set (vals ?r))" by simp
    then have "Min (set (group_pool A C self g)) - 1 \<le> Min (set (vals ?r)) - 1" by simp
    with md have "thr \<le> to_double A (Min (set (vals ?r)) - 1)"
      unfolding thr by (simp add: mono_def)
    with mt have "to_dtype A thr \<le> ?s" by (simp add: mono_def)
    with effective_threshold_le[OF mt, of thr "layer_sub A C self ?caps nm"] show ?thesis
      by simp
  qed
  have "\<forall>x\<in>set (vals (snd nm)). effective_threshold A thr (layer_sub A C self ?caps nm) < x"
  proof
    fix x assume "x \<in> set (vals (snd nm))"
    with below have "Min (set (vals ?r)) \<le> x" by simp
    with le strict show "effective_threshold A thr (layer_sub A C self ?caps nm) < x" by simp
  qed
  from gt_ones[OF this] show ?thesis by (simp add: global_decision_def sb)
qed

text \<open>The definitions a concrete group unfolds.\<close>

lemmas group_defs = layer_wf_def layer_stay_def ranked_metric_def layer_candidates_def
  layer_weight_num_def layer_expend_def pool_entry_def layer_sub_def group_caps_def
  group_sparsity_def total_weight_num_def total_prune_num_def group_pool_def

section \<open>A prune count of zero\<close>

text \<open>
  Claim C6, as amended. Normal and Block allocator: for a layer whose prune count is 0,
  threshold selection returns the sentinel, the least ranked value minus 1 computed in the
  element type of the metric, and raises only on an empty metric. When the sentinel is
  strictly below the least ranked value (it is unless the subtraction is absorbed by the
  rounding of the element type), the decision handed to \<^verbatim>\<open>_expand_mask\<close> is all ones
  whatever the metric values are, the loop body raises only if \<^verbatim>\<open>_expand_mask\<close> or the
  product with the previous mask does, and in a call that returns the mask of the layer is
  the expansion of the all-ones decision, its weight multiplied by the previous weight mask
  under continuous-mask mode. Global allocator: for a group of well-formed layers with
  distinct names whose budget \<^verbatim>\<open>total_prune_num\<close> is 0, \<^verbatim>\<open>_calculate_threshold\<close> raises
  RuntimeError when no layer of the group has a candidate (\<^verbatim>\<open>torch.cat\<close> of an empty
  list, line 225) and otherwise returns the sentinel of the pool; with monotone roundings,
  a layer whose own sentinel is strictly below its least ranked value, and whose supplied
  metric values are not below that least ranked value, has the all-ones decision, and in a
  call of \<^verbatim>\<open>generate_sparsity\<close> that returns its mask is the expansion of that decision,
  its weight multiplied by the previous weight mask under continuous-mask mode. Nothing is
  said of the second pass of the dependency-aware allocator.
\<close>

theorem zero_prune_count_all_ones:
  assumes r: "continuous_metric compress (continuous_mask self) w metric = Inr ranked"
    and z: "to_int (to_double A (total_sparsity w * real (numel ranked))) = 0"
    and s: "sentinel = to_dtype A (Min (set (vals ranked)) - 1)"
  shows "select_threshold A ranked 0
           = (if vals ranked = [] then Inl RuntimeError else Inr sentinel)
    \<and> (vals ranked \<noteq> [] \<and> sentinel < Min (set (vals ranked)) \<longrightarrow>
          gt ranked sentinel = ranked\<lparr>vals := replicate (numel ranked) 1\<rparr>
        \<and> (ms name = Some metric \<longrightarrow>
             layer_step A compress expand (continuous_mask self) name w (ms, mk)
             = (case expand name (ranked\<lparr>vals := replicate (numel ranked) 1\<rparr>) of
                  Inl e \<Rightarrow> Inl e
                | Inr lm \<Rightarrow>
                   (if continuous_mask self
                    then (case t_mul (weight lm) (weight_mask w) of
                            Inl e \<Rightarrow> Inl e
                          | Inr wm \<Rightarrow>
                             Inr (ms(name \<mapsto> ranked), mk(name \<mapsto> lm\<lparr>weight := wm\<rparr>)))
                    else Inr (ms(name \<mapsto> ranked), mk(name \<mapsto> lm)))))
        \<and> (generate_sparsity A compress expand self ms = Inr (ms', mk')
             \<and> distinct (map fst (modules_wrapper self))
             \<and> (name, w) \<in> set (modules_wrapper self) \<and> ms name = Some metric \<longrightarrow>
             (\<exists>lm0 lm. expand name (ranked\<lparr>vals := replicate (numel ranked) 1\<rparr>) = Inr lm0
                \<and> mk' name = Some lm \<and> bias lm = bias lm0
                \<and> (if continuous_mask self
                    then t_mul (weight lm0) (weight_mask w) = Inr (weight lm)
                    else weight lm = weight lm0))))
    \<and> (g \<noteq> [] \<and> (\<forall>nm\<in>set g. layer_wf A compress self (group_caps self g) nm)
         \<and> distinct (map fst g) \<and> total_prune_num A self g = 0 \<longrightarrow>
          (if \<forall>nm\<in>set g. layer_stay A compress self (group_caps self g) nm \<le> 0
           then calculate_threshold A compress self g = Inl RuntimeError
           else \<exists>subs. calculate_threshold A compress self g
                         = Inr (to_double A (Min (set (group_pool A compress self g)) - 1), subs)
                  \<and> (\<forall>nm\<in>set g.
                        mono (to_double A) \<and> mono (to_dtype A)
                      \<and> to_dtype A (to_double A
                           (Min (set (vals (ranked_metric compress self nm))) - 1))
                         < Min (set (vals (ranked_metric compress self nm)))
                      \<and> (\<forall>x\<in>set (vals (snd nm)).
                            Min (set (vals (ranked_metric compress self nm))) \<le> x) \<longrightarrow>
                        global_decision A
                          (to_double A (Min (set (group_pool A compress self g)) - 1))
                          subs (fst nm) (snd nm)
                        = Inr ((snd nm)\<lparr>vals := replicate (numel (snd nm)) 1\<rparr>))))
    \<and> (Global_generate_sparsity A compress expand self module_groups gms = Inr gmk
         \<and> distinct (concat module_groups) \<and> names \<in> set module_groups
         \<and> lookup_all gms names = Inr g \<and> total_prune_num A self g = 0
         \<and> (gname, gmetric) \<in> set g
         \<and> mono (to_double A) \<and> mono (to_dtype A)
         \<and> to_dtype A (to_double A
               (Min (set (vals (ranked_metric compress self (gname, gmetric)))) - 1))
             < Min (set (vals (ranked_metric compress self (gname, gmetric))))
         \<and> (\<forall>x\<in>set (vals gmetric).
                Min (set (vals (ranked_metric compress self (gname, gmetric)))) \<le> x) \<longrightarrow>
          (\<exists>lm0 lm. expand gname (gmetric\<lparr>vals := replicate (numel gmetric) 1\<rparr>) = Inr lm0
             \<and> gmk gname = Some lm \<and> bias lm = bias lm0
             \<and> (if continuous_mask self
                 then (\<exists>w'. map_of (modules_wrapper self) gname = Some w'
                            \<and> t_mul (weight lm0) (weight_mask w') = Inr (weight lm))
                 else weight lm = weight lm0)))"
proof -
  let ?ones = "ranked\<lparr>vals := replicate (numel ranked) 1\<rparr>"
  have sel: "select_threshold A ranked 0
           = (if vals ranked = [] then Inl RuntimeError else Inr sentinel)"
    by (simp add: select_threshold_def t_min_def s)
  have local: "gt ranked sentinel = ?ones
        \<and> (ms name = Some metric \<longrightarrow>
             layer_step A compress expand (continuous_mask self) name w (ms, mk)
             = (case expand name ?ones of
                  Inl e \<Rightarrow> Inl e
                | Inr lm \<Rightarrow>
                   (if continuous_mask self
                    then (case t_mul (weight lm) (weight_mask w) of
                            Inl e \<Rightarrow> Inl e
                          | Inr wm \<Rightarrow>
                             Inr (ms(name \<mapsto> ranked), mk(name \<mapsto> lm\<lparr>weight := wm\<rparr>)))
                    else Inr (ms(name \<mapsto> ranked), mk(name \<mapsto> lm)))))
        \<and> (generate_sparsity A compress expand self ms = Inr (ms', mk')
             \<and> distinct (map fst (modules_wrapper self))
             \<and> (name, w) \<in> set (modules_wrapper self) \<and> ms name = Some metric \<longrightarrow>
             (\<exists>lm0 lm. expand name ?ones = Inr lm0
                \<and> mk' name = Some lm \<and> bias lm = bias lm0
                \<and> (if continuous_mask self
                    then t_mul (weight lm0) (weight_mask w) = Inr (weight lm)
                    else weight lm = weight lm0)))"
    if ne: "vals ranked \<noteq> []" and lt: "sentinel < Min (set (vals ranked))"
  proof -
    have "\<forall>x\<in>set (vals ranked). sentinel < x"
    proof
      fix x assume "x \<in> set (vals ranked)"
      then have "Min (set (vals ranked)) \<le> x" by simp
      with lt show "sentinel < x" by simp
    qed
    note ones = gt_ones[OF this]
    from sel ne have sel': "select_threshold A ranked 0 = Inr sentinel" by simp
    have step: "layer_step A compress expand (continuous_mask self) name w (ms, mk)
             = (case expand name ?ones of
                  Inl e \<Rightarrow> Inl e
                | Inr lm \<Rightarrow>
                   (if continuous_mask self
                    then (case t_mul (weight lm) (weight_mask w) of
                            Inl e \<Rightarrow> Inl e
                          | Inr wm \<Rightarrow>
                             Inr (ms(name \<mapsto> ranked), mk(name \<mapsto> lm\<lparr>weight := wm\<rparr>)))
                    else Inr (ms(name \<mapsto> ranked), mk(name \<mapsto> lm))))"
      if "ms name = Some metric"
      using that r z sel' ones by (simp add: layer_step_def split: sum.splits)
    have call: "\<exists>lm0 lm. expand name ?ones = Inr lm0
                \<and> mk' name = Some lm \<and> bias lm = bias lm0
                \<and> (if continuous_mask self
                    then t_mul (weight lm0) (weight_mask w) = Inr (weight lm)
                    else weight lm = weight lm0)"
      if ret: "generate_sparsity A compress expand self ms = Inr (ms', mk')"
        and d: "distinct (map fst (modules_wrapper self))"
        and mem: "(name, w) \<in> set (modules_wrapper self)" and m: "ms name = Some metric"
    proof -
      from ret have "layer_loop A compress expand (continuous_mask self) (modules_wrapper self)
                   (ms, Map.empty) = Inr (ms', mk')"
        by (simp add: generate_sparsity_def)
      from layer_loop_result[OF this d mem] m r z sel' ones
      obtain lm0 lm where "expand name ?ones = Inr lm0" "mk' name = Some lm"
        "bias lm = bias lm0"
        "if continuous_mask self then t_mul (weight lm0) (weight_mask w) = Inr (weight lm)
         else weight lm = weight lm0"
        by auto
      then show ?thesis by blast
    qed
    from ones step call show ?thesis by blast
  qed
  have global: "(if \<forall>nm\<in>set g. layer_stay A compress self (group_caps self g) nm \<le> 0
           then calculate_threshold A compress self g = Inl RuntimeError
           else \<exists>subs. calculate_threshold A compress self g
                         = Inr (to_double A (Min (set (group_pool A compress self g)) - 1), subs)
                  \<and> (\<forall>nm\<in>set g.
                        mono (to_double A) \<and> mono (to_dtype A)
                      \<and> to_dtype A (to_double A
                           (Min (set (vals (ranked_metric compress self nm))) - 1))
                         < Min (set (vals (ranked_metric compress self nm)))
                      \<and> (\<forall>x\<in>set (vals (snd nm)).
                            Min (set (vals (ranked_metric compress self nm))) \<le> x) \<longrightarrow>
                        global_decision A
                          (to_double A (Min (set (group_pool A compress self g)) - 1))
                          subs (fst nm) (snd nm)
                        = Inr ((snd nm)\<lparr>vals := replicate (numel (snd nm)) 1\<rparr>)))"
    if ne: "g \<noteq> []" and wf: "\<forall>nm\<in>set g. layer_wf A compress self (group_caps self g) nm"
      and d: "distinct (map fst g)" and tp: "total_prune_num A self g = 0"
  proof -
    from calculate_threshold_wf[OF ne wf d] tp obtain subs where
      sb: "\<forall>nm\<in>set g. subs (fst nm) = Some (layer_sub A compress self (group_caps self g) nm)"
      and c: "calculate_threshold A compress self g =
             (if group_pool A compress self g = [] then Inl RuntimeError
              else Inr (to_double A (Min (set (group_pool A compress self g)) - 1), subs))"
      by auto
    show ?thesis
    proof (cases "\<forall>nm\<in>set g. layer_stay A compress self (group_caps self g) nm \<le> 0")
      case True
      with group_pool_empty_iff[OF wf] c show ?thesis by simp
    next
      case False
      with group_pool_empty_iff[OF wf] c
      have c': "calculate_threshold A compress self g
                  = Inr (to_double A (Min (set (group_pool A compress self g)) - 1), subs)"
        by simp
      have "\<forall>nm\<in>set g.
                        mono (to_double A) \<and> mono (to_dtype A)
                      \<and> to_dtype A (to_double A
                           (Min (set (vals (ranked_metric compress self nm))) - 1))
                         < Min (set (vals (ranked_metric compress self nm)))
                      \<and> (\<forall>x\<in>set (vals (snd nm)).
                            Min (set (vals (ranked_metric compress self nm))) \<le> x) \<longrightarrow>
                        global_decision A
                          (to_double A (Min (set (group_pool A compress self g)) - 1))
                          subs (fst nm) (snd nm)
                        = Inr ((snd nm)\<lparr>vals := replicate (numel (snd nm)) 1\<rparr>)"
        using zero_budget_decision[where A = A and C = compress and self = self and g = g
            and subs = subs] wf sb
        by blast
      with c' False show ?thesis by auto
    qed
  qed
  have gcall: "\<exists>lm0 lm. expand gname (gmetric\<lparr>vals := replicate (numel gmetric) 1\<rparr>) = Inr lm0
             \<and> gmk gname = Some lm \<and> bias lm = bias lm0
             \<and> (if continuous_mask self
                 then (\<exists>w'. map_of (modules_wrapper self) gname = Some w'
                            \<and> t_mul (weight lm0) (weight_mask w') = Inr (weight lm))
                 else weight lm = weight lm0)"
    if ret: "Global_generate_sparsity A compress expand self module_groups gms = Inr gmk"
      and dc: "distinct (concat module_groups)" and n: "names \<in> set module_groups"
      and la: "lookup_all gms names = Inr g" and tp: "total_prune_num A self g = 0"
      and m: "(gname, gmetric) \<in> set g"
      and md: "mono (to_double A)" and mt: "mono (to_dtype A)"
      and strict: "to_dtype A (to_double A
               (Min (set (vals (ranked_metric compress self (gname, gmetric)))) - 1))
             < Min (set (vals (ranked_metric compress self (gname, gmetric))))"
      and below: "\<forall>x\<in>set (vals gmetric).
                Min (set (vals (ranked_metric compress self (gname, gmetric)))) \<le> x"
  proof -
    from lookup_all_names[OF la] m have nn: "gname \<in> set names" by force
    from Global_generate_sparsity_result[OF ret dc n nn] la
    obtain metric' thr' subs' dec lm0 lm where m': "(gname, metric') \<in> set g"
      and d: "distinct (map fst g)"
      and c: "calculate_threshold A compress self g = Inr (thr', subs')"
      and gd: "global_decision A thr' subs' gname metric' = Inr dec"
      and r: "expand gname dec = Inr lm0" "gmk gname = Some lm" "bias lm = bias lm0"
        "if continuous_mask self
         then (\<exists>w. map_of (modules_wrapper self) gname = Some w
                   \<and> t_mul (weight lm0) (weight_mask w) = Inr (weight lm))
         else weight lm = weight lm0"
      by auto
    from eq_key_value[OF d m' m] have e: "metric' = gmetric" .
    from calculate_threshold_value[OF c d] tp m
    have wf: "layer_wf A compress self (group_caps self g) (gname, gmetric)"
      and thr: "thr' = to_double A (Min (set (group_pool A compress self g)) - 1)"
      and sb: "subs' gname = Some (layer_sub A compress self (group_caps self g) (gname, gmetric))"
      by force+
    from zero_budget_decision[where nm = "(gname, gmetric)", OF wf m _ thr md mt] sb strict below
    have "global_decision A thr' subs' gname gmetric
            = Inr (gmetric\<lparr>vals := replicate (numel gmetric) 1\<rparr>)" by simp
    with gd e have "dec = gmetric\<lparr>vals := replicate (numel gmetric) 1\<rparr>" by simp
    with r show ?thesis by blast
  qed
  from sel local global gcall show ?thesis by blast
qed

text \<open>
  A layer of two weights with \<open>total_sparsity = 0.25\<close>, so that the prune count is 0, whose
  first weight the previous round has pruned; and a layer of four weights whose cap protects
  it entirely, with \<open>total_sparsity = 0\<close>.
\<close>

definition wZ :: wrapper where
  "wZ = \<lparr>total_sparsity = 1 / 4, max_sparsity_per_layer = [],
          weight_mask = \<lparr>shape = [2], vals = [0, 1]\<rparr>, weight_size = [2],
          bias_mask = None\<rparr>"

definition aZ :: allocator where
  "aZ = \<lparr>dim_opt = None, block_sparse_size = None, continuous_mask = True,
          modules_wrapper = [(''L'', wZ)]\<rparr>"

definition aZ0 :: allocator where
  "aZ0 = \<lparr>dim_opt = None, block_sparse_size = None, continuous_mask = False,
           modules_wrapper = [(''L'', wZ)]\<rparr>"

definition wQ :: wrapper where
  "wQ = \<lparr>total_sparsity = 0, max_sparsity_per_layer = [(''L'', 1 / 8)],
          weight_mask = \<lparr>shape = [4], vals = [1, 1, 1, 1]\<rparr>, weight_size = [4],
          bias_mask = None\<rparr>"

definition aQ :: allocator where
  "aQ = \<lparr>dim_opt = None, block_sparse_size = None, continuous_mask = False,
          modules_wrapper = [(''L'', wQ)]\<rparr>"

text \<open>
  The Block allocator with continuous-mask mode off returns the all-ones mask; the Global
  allocator with the mode on returns the previous mask; the group of the protected layer
  makes \<^verbatim>\<open>_calculate_threshold\<close> raise.
\<close>

theorem zero_prune_count_all_ones_witness:
  "select_threshold exact \<lparr>shape = [2], vals = [5, 7]\<rparr> 0 = Inr 4
   \<and> (case Block_generate_sparsity exact aZ0 [''L'' \<mapsto> \<lparr>shape = [2], vals = [5, 7]\<rparr>] of
         Inl e \<Rightarrow> False
       | Inr r \<Rightarrow> snd r ''L'' = Some \<lparr>weight = \<lparr>shape = [2], vals = [1, 1]\<rparr>, bias = None\<rparr>)
   \<and> (case Global_generate_sparsity exact (Block_compress_mask aZ) (Block_expand_mask aZ) aZ
             [[''L'']] [''L'' \<mapsto> \<lparr>shape = [2], vals = [5, 7]\<rparr>] of
         Inl e \<Rightarrow> False
       | Inr mk \<Rightarrow> mk ''L'' = Some \<lparr>weight = \<lparr>shape = [2], vals = [0, 1]\<rparr>, bias = None\<rparr>)
   \<and> total_prune_num exact aQ [(''L'', \<lparr>shape = [4], vals = [1, 2, 3, 4]\<rparr>)] = 0
   \<and> calculate_threshold exact (Block_compress_mask aQ) aQ
        [(''L'', \<lparr>shape = [4], vals = [1, 2, 3, 4]\<rparr>)] = Inl RuntimeError"
proof -
  let ?M = "\<lparr>shape = [2], vals = [5, 7::real]\<rparr>"
  let ?R = "\<lparr>shape = [2], vals = [0, 7::real]\<rparr>"
  let ?ms = "[''L'' \<mapsto> ?M]"
  let ?Q = "\<lparr>shape = [4], vals = [1, 2, 3, 4::real]\<rparr>"
  let ?Co = "Block_compress_mask aZ0" and ?Eo = "Block_expand_mask aZ0"
  let ?C = "Block_compress_mask aZ" and ?E = "Block_expand_mask aZ"
  let ?CQ = "Block_compress_mask aQ"
  have mo: "mono (to_double exact)" "mono (to_dtype exact)" by (simp_all add: exact_def mono_def)
  have r0: "continuous_metric ?Co (continuous_mask aZ0) wZ ?M = Inr ?M"
    by (simp add: continuous_metric_def aZ0_def)
  have z0: "to_int (to_double exact (total_sparsity wZ * real (numel ?M))) = 0"
    by (simp add: eval_defs wZ_def)
  have s0: "(4::real) = to_dtype exact (Min (set (vals ?M)) - 1)" by (simp add: exact_def)
  have "\<exists>r. generate_sparsity exact ?Co ?Eo aZ0 ?ms = Inr r"
    by (simp add: eval_defs aZ0_def wZ_def)
  then obtain ms' mk' where ret0: "generate_sparsity exact ?Co ?Eo aZ0 ?ms = Inr (ms', mk')"
    by auto
  have d0: "distinct (map fst (modules_wrapper aZ0))" "(''L'', wZ) \<in> set (modules_wrapper aZ0)"
    "?ms ''L'' = Some ?M" "vals ?M \<noteq> []" "(4::real) < Min (set (vals ?M))"
    by (simp_all add: aZ0_def)
  have E0: "?Eo ''L'' \<lparr>shape = [2], vals = [1, 1]\<rparr>
     = Inr \<lparr>weight = \<lparr>shape = [2], vals = [1, 1]\<rparr>, bias = None\<rparr>"
    by (simp add: numel_def aZ0_def wZ_def Block_expand_mask_def resize_def)
  note T0 = zero_prune_count_all_ones [OF r0 z0 s0, where name = "''L''" and ms = ?ms
      and expand = ?Eo and ms' = ms' and mk' = mk']
  from T0 have sel: "select_threshold exact ?M 0 = Inr 4" by simp
  from T0 ret0 d0
  have "\<exists>lm0 lm. ?Eo ''L'' (?M\<lparr>vals := replicate (numel ?M) 1\<rparr>) = Inr lm0
          \<and> mk' ''L'' = Some lm \<and> bias lm = bias lm0
          \<and> (if continuous_mask aZ0
              then t_mul (weight lm0) (weight_mask wZ) = Inr (weight lm)
              else weight lm = weight lm0)"
    by blast
  then have b: "mk' ''L'' = Some \<lparr>weight = \<lparr>shape = [2], vals = [1, 1]\<rparr>, bias = None\<rparr>"
    using E0 by (auto simp: numel_def aZ0_def)
  have r1: "continuous_metric ?C (continuous_mask aZ) wZ ?M = Inr ?R"
    by (simp add: eval_defs aZ_def wZ_def)
  have z1: "to_int (to_double exact (total_sparsity wZ * real (numel ?R))) = 0"
    by (simp add: eval_defs wZ_def)
  have s1: "(- 1::real) = to_dtype exact (Min (set (vals ?R)) - 1)" by (simp add: exact_def)
  have "\<exists>mk. Global_generate_sparsity exact ?C ?E aZ [[''L'']] ?ms = Inr mk"
    by (simp add: eval_defs aZ_def wZ_def)
  then obtain gmk where ret1: "Global_generate_sparsity exact ?C ?E aZ [[''L'']] ?ms = Inr gmk"
    by auto
  have rk: "ranked_metric ?C aZ (''L'', ?M) = ?R"
    by (simp add: group_defs eval_defs aZ_def wZ_def)
  have d1: "distinct (concat [[''L'']])" "[''L''] \<in> set [[''L'']]"
    "lookup_all ?ms [''L''] = Inr [(''L'', ?M)]" "(''L'', ?M) \<in> set [(''L'', ?M)]"
    by simp_all
  have tp1: "total_prune_num exact aZ [(''L'', ?M)] = 0"
    by (simp add: group_defs eval_defs aZ_def wZ_def)
  have st1: "to_dtype exact (to_double exact (Min (set (vals ?R)) - 1)) < Min (set (vals ?R))"
    "\<forall>x\<in>set (vals ?M). Min (set (vals ?R)) \<le> x"
    by (simp_all add: exact_def)
  have E1: "?E ''L'' \<lparr>shape = [2], vals = [1, 1]\<rparr>
     = Inr \<lparr>weight = \<lparr>shape = [2], vals = [1, 1]\<rparr>, bias = None\<rparr>"
    by (simp add: numel_def aZ_def wZ_def Block_expand_mask_def resize_def)
  note T1 = zero_prune_count_all_ones [OF r1 z1 s1, where expand = ?E
      and module_groups = "[[''L'']]" and gms = ?ms and gmk = gmk and names = "[''L'']"
      and g = "[(''L'', ?M)]" and gname = "''L''" and gmetric = ?M, unfolded rk]
  from T1 ret1 d1 tp1 mo st1
  have "\<exists>lm0 lm. ?E ''L'' (?M\<lparr>vals := replicate (numel ?M) 1\<rparr>) = Inr lm0
             \<and> gmk ''L'' = Some lm \<and> bias lm = bias lm0
             \<and> (if continuous_mask aZ
                 then (\<exists>w'. map_of (modules_wrapper aZ) ''L'' = Some w'
                            \<and> t_mul (weight lm0) (weight_mask w') = Inr (weight lm))
                 else weight lm = weight lm0)"
    by blast
  then obtain lm where "gmk ''L'' = Some lm" "bias lm = None"
    "weight lm = \<lparr>shape = [2], vals = [0, 1]\<rparr>"
    using E1 by (auto simp: numel_def aZ_def wZ_def t_mul_def)
  then have g: "gmk ''L'' = Some \<lparr>weight = \<lparr>shape = [2], vals = [0, 1]\<rparr>, bias = None\<rparr>"
    by (cases lm) simp
  have wfq: "[(''L'', ?Q)] \<noteq> []
     \<and> (\<forall>nm\<in>set [(''L'', ?Q)]. layer_wf exact ?CQ aQ (group_caps aQ [(''L'', ?Q)]) nm)
     \<and> distinct (map fst [(''L'', ?Q)])"
    by (simp add: group_defs eval_defs aQ_def wQ_def)
  have tpq: "total_prune_num exact aQ [(''L'', ?Q)] = 0"
    by (simp add: group_defs eval_defs aQ_def wQ_def)
  have pq: "\<forall>nm\<in>set [(''L'', ?Q)]. layer_stay exact ?CQ aQ (group_caps aQ [(''L'', ?Q)]) nm \<le> 0"
    by (simp add: group_defs eval_defs aQ_def wQ_def)
  have rq: "continuous_metric ?CQ (continuous_mask aQ) wZ ?M = Inr ?M"
    by (simp add: continuous_metric_def aQ_def)
  from zero_prune_count_all_ones [OF rq z0 s0, where g = "[(''L'', ?Q)]"] wfq tpq pq
  have q: "calculate_threshold exact ?CQ aQ [(''L'', ?Q)] = Inl RuntimeError"
    by simp
  from sel b g q tpq ret0 ret1 show ?thesis by (simp add: Block_generate_sparsity_def)
qed

text \<open>
  The claim as stated fails under continuous-mask mode: the prune count of layer \<open>L\<close> is
  0 and the returned mask is the previous mask \<open>[0, 1]\<close>, not all ones.
\<close>

theorem zero_prune_count_counterexample:
  "(case Block_generate_sparsity exact aZ [''L'' \<mapsto> \<lparr>shape = [2], vals = [5, 7]\<rparr>] of
      Inl e \<Rightarrow> None
    | Inr (ms', mk) \<Rightarrow> Some (mk ''L''))
   = Some (Some \<lparr>weight = \<lparr>shape = [2], vals = [0, 1]\<rparr>, bias = None\<rparr>)
   \<and> to_int (to_double exact (total_sparsity wZ * real (numel \<lparr>shape = [2], vals = [5, 7]\<rparr>))) = 0"
  by (simp add: eval_defs aZ_def wZ_def)

text \<open>
  The second pass of the dependency-aware allocator (lines 286 to 287) has no branch for a
  prune count of 0: the maximum of the empty list of smallest entries raises.
\<close>

lemma dependency_second_pass_raises:
  "member_mask exact 0 \<lparr>shape = [4], vals = [1, 2, 3, 4]\<rparr> [1, 1, 1, 1] = Inl RuntimeError"
  by (simp add: eval_defs)

lemma dependency_zero_sparsity_raises:
  "Dependency_generate_sparsity exact (Block_compress_mask (aM\<lparr>continuous_mask := False\<rparr>))
     (Block_expand_mask (aM\<lparr>continuous_mask := False\<rparr>)) (aM\<lparr>continuous_mask := False\<rparr>)
     [[''L'']] [(''L'', 1)] [''L'' \<mapsto> \<lparr>shape = [2], vals = [5, 7]\<rparr>] = Inl RuntimeError"
  by (simp add: eval_defs aM_def wM_def)

section \<open>A layer protected by its cap\<close>

text \<open>
  Claim C8, as amended. In the Global allocator, a well-formed layer whose
  \<^verbatim>\<open>stay_metric_num\<close> is at most 0 adds nothing to \<^verbatim>\<open>metric_list\<close>, and its entry in
  \<^verbatim>\<open>sub_thresholds\<close> is the sentinel: the least value of its ranked metric minus 1, in
  double precision. When every layer of the group is such a layer, \<^verbatim>\<open>_calculate_threshold\<close>
  raises RuntimeError (\<^verbatim>\<open>torch.cat\<close> of an empty list, line 225). Whenever it returns, the
  decision of the layer is \<^verbatim>\<open>metric > min(threshold, sentinel)\<close>, taken in the element type
  of the metric; when the conversion to that type is monotone and the converted sentinel is
  strictly below every supplied metric value of the layer, the decision keeps every element
  whatever the threshold of the group is, and in a call of \<^verbatim>\<open>generate_sparsity\<close> that
  returns the mask of the layer is the expansion of the all-ones decision, its weight
  multiplied by the previous weight mask under continuous-mask mode. The layer is fully
  protected by its cap, not prunable.
\<close>

theorem fully_protected_layer:
  assumes wf: "layer_wf A compress self (group_caps self g) (name, metric)"
    and p: "layer_stay A compress self (group_caps self g) (name, metric) \<le> 0"
    and m: "(name, metric) \<in> set g" and d: "distinct (map fst g)"
    and s: "sentinel = to_double A (Min (set (vals (ranked_metric compress self (name, metric)))) - 1)"
  shows "threshold_step A compress self (group_caps self g) name metric st
           = Inr (fst st, (fst (snd st))(name \<mapsto> PyFloat sentinel),
                  snd (snd st) + layer_weight_num self (name, metric))
       \<and> ((\<forall>nm\<in>set g. layer_wf A compress self (group_caps self g) nm
                       \<and> layer_stay A compress self (group_caps self g) nm \<le> 0)
            \<longrightarrow> calculate_threshold A compress self g = Inl RuntimeError)
       \<and> (calculate_threshold A compress self g = Inr (thr, subs) \<longrightarrow>
             subs name = Some (PyFloat sentinel)
           \<and> global_decision A thr subs name metric
               = Inr (gt metric (to_dtype A (min thr sentinel)))
           \<and> (mono (to_dtype A) \<and> (\<forall>x\<in>set (vals metric). to_dtype A sentinel < x) \<longrightarrow>
                 global_decision A thr subs name metric
                   = Inr (metric\<lparr>vals := replicate (numel metric) 1\<rparr>)))
       \<and> (Global_generate_sparsity A compress expand self module_groups ms = Inr mk
            \<and> distinct (concat module_groups) \<and> names \<in> set module_groups
            \<and> lookup_all ms names = Inr g
            \<and> mono (to_dtype A) \<and> (\<forall>x\<in>set (vals metric). to_dtype A sentinel < x) \<longrightarrow>
             (\<exists>lm0 lm. expand name (metric\<lparr>vals := replicate (numel metric) 1\<rparr>) = Inr lm0
                \<and> mk name = Some lm \<and> bias lm = bias lm0
                \<and> (if continuous_mask self
                    then (\<exists>w. map_of (modules_wrapper self) name = Some w
                              \<and> t_mul (weight lm0) (weight_mask w) = Inr (weight lm))
                    else weight lm = weight lm0)))"
proof -
  let ?caps = "group_caps self g"
  have sub: "layer_sub A compress self ?caps (name, metric) = PyFloat sentinel"
    using p by (simp add: layer_sub_def s)
  have step: "threshold_step A compress self ?caps name metric st
           = Inr (fst st, (fst (snd st))(name \<mapsto> PyFloat sentinel),
                  snd (snd st) + layer_weight_num self (name, metric))"
    using threshold_step_wf[OF wf, of st] p by (simp add: sub)
  have allp: "calculate_threshold A compress self g = Inl RuntimeError"
    if a: "\<forall>nm\<in>set g. layer_wf A compress self ?caps nm
                       \<and> layer_stay A compress self ?caps nm \<le> 0"
  proof -
    from m have ne: "g \<noteq> []" by auto
    from a have wfs: "\<forall>nm\<in>set g. layer_wf A compress self ?caps nm" by simp
    from a have "group_pool A compress self g = []"
      by (simp add: group_pool_def pool_entry_empty)
    with calculate_threshold_wf[OF ne wfs d] show ?thesis by auto
  qed
  have dec: "subs name = Some (PyFloat sentinel)
           \<and> global_decision A thr subs name metric
               = Inr (gt metric (to_dtype A (min thr sentinel)))
           \<and> (mono (to_dtype A) \<and> (\<forall>x\<in>set (vals metric). to_dtype A sentinel < x) \<longrightarrow>
                 global_decision A thr subs name metric
                   = Inr (metric\<lparr>vals := replicate (numel metric) 1\<rparr>))"
    if c: "calculate_threshold A compress self g = Inr (thr, subs)" for thr subs
  proof -
    from calculate_threshold_value[OF c d] m sub
    have sb: "subs name = Some (PyFloat sentinel)" by force
    have e: "effective_threshold A thr (PyFloat sentinel) = to_dtype A (min thr sentinel)"
      by (simp add: effective_threshold_def min_def not_less)
    have gd: "global_decision A thr subs name metric
               = Inr (gt metric (to_dtype A (min thr sentinel)))"
      by (simp add: global_decision_def sb e)
    have ones: "global_decision A thr subs name metric
                   = Inr (metric\<lparr>vals := replicate (numel metric) 1\<rparr>)"
      if mo: "mono (to_dtype A)" and lt: "\<forall>x\<in>set (vals metric). to_dtype A sentinel < x"
    proof -
      from effective_threshold_PyFloat[OF mo, of thr sentinel] lt
      have "\<forall>x\<in>set (vals metric). to_dtype A (min thr sentinel) < x"
        unfolding e by force
      from gt_ones[OF this] gd show ?thesis by simp
    qed
    from sb gd ones show ?thesis by blast
  qed
  have call: "\<exists>lm0 lm. expand name (metric\<lparr>vals := replicate (numel metric) 1\<rparr>) = Inr lm0
                \<and> mk name = Some lm \<and> bias lm = bias lm0
                \<and> (if continuous_mask self
                    then (\<exists>w. map_of (modules_wrapper self) name = Some w
                              \<and> t_mul (weight lm0) (weight_mask w) = Inr (weight lm))
                    else weight lm = weight lm0)"
    if ret: "Global_generate_sparsity A compress expand self module_groups ms = Inr mk"
      and dc: "distinct (concat module_groups)" and n: "names \<in> set module_groups"
      and la: "lookup_all ms names = Inr g"
      and mo: "mono (to_dtype A)" and lt: "\<forall>x\<in>set (vals metric). to_dtype A sentinel < x"
  proof -
    from lookup_all_names[OF la] m have nn: "name \<in> set names" by force
    from Global_generate_sparsity_result[OF ret dc n nn] la
    obtain metric' thr' subs' dec lm0 lm where m': "(name, metric') \<in> set g"
      and c: "calculate_threshold A compress self g = Inr (thr', subs')"
      and gd: "global_decision A thr' subs' name metric' = Inr dec"
      and r: "expand name dec = Inr lm0" "mk name = Some lm" "bias lm = bias lm0"
        "if continuous_mask self
         then (\<exists>w. map_of (modules_wrapper self) name = Some w
                   \<and> t_mul (weight lm0) (weight_mask w) = Inr (weight lm))
         else weight lm = weight lm0"
      by auto
    from eq_key_value[OF d m' m] have "metric' = metric" .
    with dec[OF c] mo lt gd have "dec = metric\<lparr>vals := replicate (numel metric) 1\<rparr>"
      by (metis sum.inject(2))
    with r show ?thesis by blast
  qed
  from step allp dec call show ?thesis by blast
qed

text \<open>
  Two layers of four weights in one group; the dictionary of caps allows an eighth of layer
  \<open>A\<close> to be pruned, so that \<^verbatim>\<open>stay_metric_num\<close> is 0 for \<open>A\<close>.
\<close>

definition wPA :: wrapper where
  "wPA = \<lparr>total_sparsity = 1 / 2, max_sparsity_per_layer = [(''A'', 1 / 8)],
           weight_mask = \<lparr>shape = [4], vals = [1, 1, 1, 1]\<rparr>, weight_size = [4],
           bias_mask = None\<rparr>"

definition aP :: allocator where
  "aP = \<lparr>dim_opt = None, block_sparse_size = None, continuous_mask = False,
          modules_wrapper = [(''A'', wPA), (''B'', wPA)]\<rparr>"

definition gP :: "(string \<times> tensor) list" where
  "gP = [(''A'', \<lparr>shape = [4], vals = [1, 2, 3, 4]\<rparr>),
         (''B'', \<lparr>shape = [4], vals = [10, 20, 30, 40]\<rparr>)]"

text \<open>
  Layer \<open>A\<close> leaves \<^verbatim>\<open>metric_list\<close> empty and gets the sentinel 0; a group of layer \<open>A\<close> alone
  makes \<^verbatim>\<open>_calculate_threshold\<close> raise; in the group of both layers the threshold is 40
  and layer \<open>A\<close> keeps its four elements.
\<close>

theorem fully_protected_layer_witness:
  "threshold_step exact (Block_compress_mask aP) aP [(''A'', 1 / 8)] ''A''
      \<lparr>shape = [4], vals = [1, 2, 3, 4]\<rparr> ([], Map.empty, 0)
     = Inr ([], [''A'' \<mapsto> PyFloat 0], 4)
   \<and> calculate_threshold exact (Block_compress_mask aP) aP
        [(''A'', \<lparr>shape = [4], vals = [1, 2, 3, 4]\<rparr>)] = Inl RuntimeError
   \<and> (case calculate_threshold exact (Block_compress_mask aP) aP gP of
         Inl e \<Rightarrow> False
       | Inr r \<Rightarrow> fst r = 40 \<and> snd r ''A'' = Some (PyFloat 0)
                  \<and> global_decision exact (fst r) (snd r) ''A'' \<lparr>shape = [4], vals = [1, 2, 3, 4]\<rparr>
                      = Inr \<lparr>shape = [4], vals = [1, 1, 1, 1]\<rparr>)
   \<and> (case Global_generate_sparsity exact (Block_compress_mask aP) (Block_expand_mask aP) aP
             [[''A'', ''B'']]
             [''A'' \<mapsto> \<lparr>shape = [4], vals = [1, 2, 3, 4]\<rparr>,
              ''B'' \<mapsto> \<lparr>shape = [4], vals = [10, 20, 30, 40]\<rparr>] of
         Inl e \<Rightarrow> False
       | Inr mk \<Rightarrow> mk ''A'' = Some \<lparr>weight = \<lparr>shape = [4], vals = [1, 1, 1, 1]\<rparr>, bias = None\<rparr>)"
proof -
  let ?M = "\<lparr>shape = [4], vals = [1, 2, 3, 4::real]\<rparr>"
  let ?C = "Block_compress_mask aP" and ?E = "Block_expand_mask aP"
  let ?g1 = "[(''A'', ?M)]"
  let ?ms = "[''A'' \<mapsto> ?M, ''B'' \<mapsto> \<lparr>shape = [4], vals = [10, 20, 30, 40::real]\<rparr>]"
  have caps: "group_caps aP gP = [(''A'', 1 / 8)]" "group_caps aP ?g1 = [(''A'', 1 / 8)]"
    by (simp_all add: group_caps_def gP_def aP_def wPA_def)
  have wf: "layer_wf exact ?C aP [(''A'', 1 / 8)] (''A'', ?M)"
    by (simp add: group_defs eval_defs aP_def wPA_def)
  have p: "layer_stay exact ?C aP [(''A'', 1 / 8)] (''A'', ?M) \<le> 0"
    by (simp add: group_defs eval_defs aP_def wPA_def)
  have s: "0 = to_double exact (Min (set (vals (ranked_metric ?C aP (''A'', ?M)))) - 1)"
    by (simp add: group_defs eval_defs aP_def wPA_def)
  have lw: "layer_weight_num aP (''A'', ?M) = 4"
    by (simp add: group_defs aP_def wPA_def)
  have m: "(''A'', ?M) \<in> set gP" and d: "distinct (map fst gP)" by (simp_all add: gP_def)
  have m1: "(''A'', ?M) \<in> set ?g1" and d1: "distinct (map fst ?g1)" by simp_all
  have mo: "mono (to_dtype exact)" by (simp add: exact_def mono_def)
  have lt: "\<forall>x\<in>set (vals ?M). to_dtype exact 0 < x" by (simp add: exact_def)
  have c: "\<exists>subs. calculate_threshold exact ?C aP gP = Inr (40, subs)"
    by (simp add: eval_defs aP_def wPA_def gP_def)
  then obtain subs where c: "calculate_threshold exact ?C aP gP = Inr (40, subs)" by blast
  have "\<exists>mk. Global_generate_sparsity exact ?C ?E aP [[''A'', ''B'']] ?ms = Inr mk"
    by (simp add: eval_defs aP_def wPA_def)
  then obtain mk where ret: "Global_generate_sparsity exact ?C ?E aP [[''A'', ''B'']] ?ms = Inr mk"
    by blast
  have la: "lookup_all ?ms [''A'', ''B''] = Inr gP" by (simp add: gP_def)
  have E: "?E ''A'' \<lparr>shape = [4], vals = [1, 1, 1, 1]\<rparr>
     = Inr \<lparr>weight = \<lparr>shape = [4], vals = [1, 1, 1, 1]\<rparr>, bias = None\<rparr>"
    by (simp add: numel_def aP_def wPA_def Block_expand_mask_def resize_def)
  note T = fully_protected_layer [where A = exact and compress = ?C and self = aP
      and name = "''A''" and metric = ?M and sentinel = 0]
  note T1 = T[where g = gP and st = "([], Map.empty, 0)" and thr = 40 and subs = subs
      and expand = ?E and module_groups = "[[''A'', ''B'']]" and ms = ?ms and mk = mk
      and names = "[''A'', ''B'']", unfolded caps, OF wf p m d s]
  note T2 = T[where g = ?g1, unfolded caps, OF wf p m1 d1 s]
  from T1 have step: "threshold_step exact ?C aP [(''A'', 1 / 8)] ''A'' ?M ([], Map.empty, 0)
     = Inr ([], [''A'' \<mapsto> PyFloat 0], 4)"
    by (simp add: lw)
  from T2 wf p have raise: "calculate_threshold exact ?C aP ?g1 = Inl RuntimeError" by simp
  from T1 c mo lt have "subs ''A'' = Some (PyFloat 0)
    \<and> global_decision exact 40 subs ''A'' ?M = Inr (?M\<lparr>vals := replicate (numel ?M) 1\<rparr>)"
    by blast
  then have dec: "subs ''A'' = Some (PyFloat 0)"
    "global_decision exact 40 subs ''A'' ?M = Inr \<lparr>shape = [4], vals = [1, 1, 1, 1]\<rparr>"
    by (simp_all add: numel_def)
  have dc: "distinct (concat [[''A'', ''B'']])" and n: "[''A'', ''B''] \<in> set [[''A'', ''B'']]"
    by simp_all
  from T1 ret dc n la mo lt
  have "\<exists>lm0 lm. ?E ''A'' (?M\<lparr>vals := replicate (numel ?M) 1\<rparr>) = Inr lm0
          \<and> mk ''A'' = Some lm \<and> bias lm = bias lm0
          \<and> (if continuous_mask aP
              then (\<exists>w. map_of (modules_wrapper aP) ''A'' = Some w
                        \<and> t_mul (weight lm0) (weight_mask w) = Inr (weight lm))
              else weight lm = weight lm0)"
    by blast
  then have "mk ''A'' = Some \<lparr>weight = \<lparr>shape = [4], vals = [1, 1, 1, 1]\<rparr>, bias = None\<rparr>"
    using E by (auto simp: numel_def aP_def)
  with step raise dec c ret show ?thesis by simp
qed

text \<open>
  The claim as stated calls such a layer eligible to be fully pruned. Here the threshold of
  the group is 40, above every metric value of layer \<open>A\<close>, and layer \<open>A\<close> keeps all its
  elements, while the four elements the budget asks for are all taken from layer \<open>B\<close>.
\<close>

theorem protected_layer_counterexample:
  "stay_metric_num exact [(''A'', 1 / 8)] ''A'' wPA \<lparr>shape = [4], vals = [1, 2, 3, 4]\<rparr> = 0
   \<and> (case calculate_threshold exact (Block_compress_mask aP) aP gP of
         Inl e \<Rightarrow> None | Inr r \<Rightarrow> Some (fst r)) = Some 40
   \<and> (case Global_generate_sparsity exact (Block_compress_mask aP) (Block_expand_mask aP) aP
             [[''A'', ''B'']]
             [''A'' \<mapsto> \<lparr>shape = [4], vals = [1, 2, 3, 4]\<rparr>,
              ''B'' \<mapsto> \<lparr>shape = [4], vals = [10, 20, 30, 40]\<rparr>] of
         Inl e \<Rightarrow> None
       | Inr mk \<Rightarrow> Some (mk ''A'', mk ''B''))
     = Some (Some \<lparr>weight = \<lparr>shape = [4], vals = [1, 1, 1, 1]\<rparr>, bias = None\<rparr>,
             Some \<lparr>weight = \<lparr>shape = [4], vals = [0, 0, 0, 0]\<rparr>, bias = None\<rparr>)"
  by (simp add: eval_defs aP_def wPA_def gP_def)

end
